theory Spec2Isabelle
  imports Complex_Main "HOL-Library.Log_Nat"
begin

section \<open>Python values\<close>

text \<open>
  A Python \<open>str\<close> is a sequence of Unicode code points: \<open>len\<close>, padding and slicing all
  count code points. It is modelled as a list of code-point numbers; \<open>lit\<close> writes an
  ASCII literal of the source.
\<close>

type_synonym codepoint = nat
type_synonym pystr = "codepoint list"

definition lit :: "string \<Rightarrow> pystr" where
  "lit s = map of_char s"

text \<open>
  A Python \<open>float\<close> is a binary64 value: a finite value is given by the rational it
  denotes, the negative zero and the three special values are constructors of their own.
\<close>

datatype pyfloat = Finite rat | NegZero | PosInf | NegInf | NaN

text \<open>
  What \<open>json.loads\<close> returns. \<open>JDict kvs\<close> stands for the dict whose lookup is
  \<open>map_of kvs\<close>; \<open>JNull\<close> is Python's \<open>None\<close>.
\<close>

datatype json =
    JNull
  | JBool bool
  | JInt int
  | JFloat pyfloat
  | JStr pystr
  | JList "json list"
  | JDict "(pystr \<times> json) list"

type_synonym dict = "(pystr \<times> json) list"

text \<open>\<open>d.get(key, default)\<close>; \<open>d.get(key)\<close> is \<open>get d key JNull\<close>.\<close>

definition get :: "dict \<Rightarrow> pystr \<Rightarrow> json \<Rightarrow> json" where
  "get d key dflt = (case map_of d key of None \<Rightarrow> dflt | Some v \<Rightarrow> v)"

text \<open>Truth value testing, as \<open>not ms\<close> and \<open>if storage_type\<close> do it.\<close>

fun truthy :: "json \<Rightarrow> bool" where
  "truthy JNull = False"
| "truthy (JBool b) = b"
| "truthy (JInt n) = (n \<noteq> 0)"
| "truthy (JFloat (Finite q)) = (q \<noteq> 0)"
| "truthy (JFloat NegZero) = False"
| "truthy (JFloat x) = True"
| "truthy (JStr s) = (s \<noteq> [])"
| "truthy (JList xs) = (xs \<noteq> [])"
| "truthy (JDict kvs) = (kvs \<noteq> [])"

subsection \<open>\<open>str()\<close>\<close>

fun digits :: "nat \<Rightarrow> pystr" where
  "digits n = (if n < 10 then [48 + n] else digits (n div 10) @ [48 + n mod 10])"

declare digits.simps [simp del]

definition str_int :: "int \<Rightarrow> pystr" where
  "str_int i = (if i < 0 then 45 # digits (nat (- i)) else digits (nat i))"

text \<open>
  \<open>str(v)\<close>. For a float, a list or a dict the text is Python's \<open>repr\<close> (shortest
  round-trip digits, quoting and escaping by Unicode category); that algorithm is not
  embedded and is taken as the parameter \<open>repr\<close>.
\<close>

fun py_str :: "(json \<Rightarrow> pystr) \<Rightarrow> json \<Rightarrow> pystr" where
  "py_str repr JNull = lit ''None''"
| "py_str repr (JBool b) = (if b then lit ''True'' else lit ''False'')"
| "py_str repr (JInt n) = str_int n"
| "py_str repr (JStr s) = s"
| "py_str repr v = repr v"

text \<open>A stand-in for \<open>repr\<close> at inputs whose rendering never consults it.\<close>

definition no_repr :: "json \<Rightarrow> pystr" where
  "no_repr v = []"

subsection \<open>String formatting\<close>

text \<open>\<open>sep.join(xs)\<close>\<close>

fun join :: "pystr \<Rightarrow> pystr list \<Rightarrow> pystr" where
  "join sep [] = []"
| "join sep [x] = x"
| "join sep (x # y # ys) = x @ sep @ join sep (y # ys)"

text \<open>
  \<open>"{:w}".format(s)\<close> for a \<open>str\<close> argument: left-aligned, filled with spaces up to
  \<open>w\<close> code points, never cut.
\<close>

definition pad :: "nat \<Rightarrow> pystr \<Rightarrow> pystr" where
  "pad w s = s @ replicate (w - length s) 32"

section \<open>Timestamps\<close>

subsection \<open>binary64 arithmetic\<close>

text \<open>
  \<open>ms / 1000\<close> is a float division and \<open>fromtimestamp\<close> multiplies the fraction by
  \<open>1e6\<close>: both round the exact result to the nearest binary64 value, ties to even.
  \<open>round64\<close> is that rounding on the rationals (53-bit significand, least exponent
  \<open>-1022\<close>, subnormals below), with the exponent left unbounded above; a result of
  magnitude \<open>2 ^ 1024\<close> or more is an overflow.
\<close>

definition round_half_even :: "rat \<Rightarrow> int" where
  "round_half_even x =
     (let f = \<lfloor>x\<rfloor>; d = x - of_int f
      in if d < 1 / 2 then f else if 1 / 2 < d then f + 1 else if even f then f else f + 1)"

definition ilog2 :: "rat \<Rightarrow> int" where
  "ilog2 a = (let (n, d) = quotient_of a; e = bitlen n - bitlen d
              in if 2 powi e \<le> a then e else e - 1)"

definition round64 :: "rat \<Rightarrow> rat" where
  "round64 q =
     (if q = 0 then 0
      else let a = \<bar>q\<bar>;
               e = max (ilog2 a) (- 1022);
               u = 2 powi (e - 52)
           in sgn q * (of_int (round_half_even (a / u)) * u))"

text \<open>Division of two numbers as floats; \<open>None\<close> is \<open>OverflowError\<close>.\<close>

definition fdiv :: "rat \<Rightarrow> rat \<Rightarrow> pyfloat option" where
  "fdiv a b = (let r = round64 (a / b) in if 2 ^ 1024 \<le> \<bar>r\<bar> then None else Some (Finite r))"

text \<open>
  \<open>ms / 1000\<close> by the type of \<open>ms\<close>; \<open>None\<close> is an exception (\<open>TypeError\<close> for a
  string, list, dict or \<open>None\<close>, \<open>OverflowError\<close> for an integer too large for a float).
\<close>

definition truediv_1000 :: "json \<Rightarrow> pyfloat option" where
  "truediv_1000 v =
     (case v of
        JBool b \<Rightarrow> fdiv (if b then 1 else 0) 1000
      | JInt n \<Rightarrow> fdiv (of_int n) 1000
      | JFloat (Finite q) \<Rightarrow> fdiv q 1000
      | JFloat x \<Rightarrow> Some x
      | _ \<Rightarrow> None)"

subsection \<open>\<open>datetime.fromtimestamp(t, tz=utc)\<close> and \<open>isoformat\<close>\<close>

text \<open>
  The float is split into whole seconds (towards zero) and a fraction; the fraction times
  \<open>1e6\<close> is rounded half-even to microseconds and a carry or borrow moves into the
  seconds.
\<close>

definition split_seconds :: "rat \<Rightarrow> int \<times> int" where
  "split_seconds d =
     (let intpart = (if d < 0 then - \<lfloor>- d\<rfloor> else \<lfloor>d\<rfloor>);
          floatpart = round_half_even (round64 ((d - of_int intpart) * 1000000))
      in if 1000000 \<le> floatpart then (intpart + 1, floatpart - 1000000)
         else if floatpart < 0 then (intpart - 1, floatpart + 1000000)
         else (intpart, floatpart))"

definition days_before_month :: "nat list" where
  "days_before_month = [0, 0, 31, 59, 90, 120, 151, 181, 212, 243, 273, 304, 334]"

definition days_in_month :: "nat list" where
  "days_in_month = [0, 31, 28, 31, 30, 31, 30, 31, 31, 30, 31, 30, 31]"

text \<open>Proleptic Gregorian ordinal (day 1 is 0001-01-01) to year, month, day.\<close>

definition ord2ymd :: "nat \<Rightarrow> nat \<times> nat \<times> nat" where
  "ord2ymd ordinal =
     (let n = ordinal - 1;
          n400 = n div 146097; n = n mod 146097;
          y = n400 * 400 + 1;
          n100 = n div 36524; n = n mod 36524;
          n4 = n div 1461; n = n mod 1461;
          n1 = n div 365; n = n mod 365;
          y = y + n100 * 100 + n4 * 4 + n1
      in if n1 = 4 \<or> n100 = 4 then (y - 1, 12, 31)
         else let leapyear = (n1 = 3 \<and> (n4 \<noteq> 24 \<or> n100 = 3));
                  m = (n + 50) div 32;
                  preceding = days_before_month ! m + (if 2 < m \<and> leapyear then 1 else 0)
              in if n < preceding
                 then let m = m - 1;
                          preceding = preceding -
                            (days_in_month ! m + (if m = 2 \<and> leapyear then 1 else 0))
                      in (y, m, n - preceding + 1)
                 else (y, m, n - preceding + 1))"

record datetime =
  year :: nat
  month :: nat
  day :: nat
  hour :: nat
  minute :: nat
  second :: nat
  microsecond :: nat

text \<open>
  \<open>None\<close> is an exception: \<open>ValueError\<close> for NaN and for a year outside 1..9999,
  \<open>OverflowError\<close> for an infinity.
\<close>

definition fromtimestamp_utc :: "pyfloat \<Rightarrow> datetime option" where
  "fromtimestamp_utc x =
     (case (case x of Finite d \<Rightarrow> Some d | NegZero \<Rightarrow> Some 0 | _ \<Rightarrow> None) of
        None \<Rightarrow> None
      | Some d \<Rightarrow>
          (let (sec, us) = split_seconds d;
               ordinal = sec div 86400 + 719163;
               secs = nat (sec mod 86400)
           in if ordinal < 1 \<or> 3652059 < ordinal then None
              else let (y, m, dd) = ord2ymd (nat ordinal)
                   in Some \<lparr>year = y, month = m, day = dd, hour = secs div 3600,
                        minute = secs mod 3600 div 60, second = secs mod 60,
                        microsecond = nat us\<rparr>))"

text \<open>\<open>"%0wd" % n\<close>\<close>

definition zpad :: "nat \<Rightarrow> nat \<Rightarrow> pystr" where
  "zpad w n = replicate (w - length (digits n)) 48 @ digits n"

definition isoformat :: "datetime \<Rightarrow> pystr" where
  "isoformat dt =
     zpad 4 (year dt) @ lit ''-'' @ zpad 2 (month dt) @ lit ''-'' @ zpad 2 (day dt) @ lit ''T'' @
     zpad 2 (hour dt) @ lit '':'' @ zpad 2 (minute dt) @ lit '':'' @ zpad 2 (second dt) @
     (if microsecond dt \<noteq> 0 then lit ''.'' @ zpad 6 (microsecond dt) else []) @ lit ''+00:00''"

subsection \<open>\<open>_format_ts\<close>\<close>

text \<open>
  The string literal returned for a falsy value, as the source file holds it: the three
  code points U+00E2, U+20AC, U+201D.
\<close>

definition placeholder :: pystr where
  "placeholder = [226, 8364, 8221]"

definition format_ts :: "(json \<Rightarrow> pystr) \<Rightarrow> json \<Rightarrow> pystr" where
  "format_ts repr ms =
     (if \<not> truthy ms then placeholder
      else case truediv_1000 ms of
             None \<Rightarrow> py_str repr ms
           | Some x \<Rightarrow> (case fromtimestamp_utc x of
                          None \<Rightarrow> py_str repr ms
                        | Some dt \<Rightarrow> isoformat dt))"

section \<open>The table\<close>

type_synonym row = "pystr \<times> pystr \<times> pystr \<times> pystr"

definition row_of :: "(json \<Rightarrow> pystr) \<Rightarrow> dict \<Rightarrow> row" where
  "row_of repr item =
     (py_str repr (get item (lit ''name'') (JStr [])),
      format_ts repr (get item (lit ''last_successful_probe'') JNull),
      format_ts repr (get item (lit ''last_successful_monitor'') JNull),
      py_str repr (get item (lit ''condition'') (JStr [])))"

text \<open>The first loop of \<open>build_table\<close>: \<open>idx\<close> counts the items seen, the loop breaks
  at the first index that reaches the limit.\<close>

fun collect_rows :: "(json \<Rightarrow> pystr) \<Rightarrow> int option \<Rightarrow> nat \<Rightarrow> dict list \<Rightarrow> row list" where
  "collect_rows repr limit idx [] = []"
| "collect_rows repr limit idx (item # items) =
     (if (case limit of None \<Rightarrow> False | Some k \<Rightarrow> k \<le> int idx) then []
      else row_of repr item # collect_rows repr limit (Suc idx) items)"

definition headers :: "pystr list" where
  "headers = [lit ''Name'', lit ''Last Successful Probe (UTC)'',
              lit ''Last Successful Monitor (UTC)'', lit ''Condition'']"

definition cells :: "row \<Rightarrow> pystr list" where
  "cells r = (case r of (a, b, c, d) \<Rightarrow> [a, b, c, d])"

text \<open>The second loop: every row widens each column to its cell.\<close>

definition widen :: "nat list \<Rightarrow> row \<Rightarrow> nat list" where
  "widen ws r = map (\<lambda>(w, c). max w (length c)) (zip ws (cells r))"

definition col_widths :: "row list \<Rightarrow> nat list" where
  "col_widths rows = foldl widen (map length headers) rows"

text \<open>\<open>fmt.format(*columns)\<close> with \<open>fmt\<close> the \<open>{:w}\<close> fields joined by \<open>" | "\<close>.\<close>

definition format_line :: "nat list \<Rightarrow> pystr list \<Rightarrow> pystr" where
  "format_line ws columns = join (lit '' | '') (map (\<lambda>(w, c). pad w c) (zip ws columns))"

definition divider :: "nat list \<Rightarrow> pystr" where
  "divider ws = join (lit ''-+-'') (map (\<lambda>w. replicate w 45) ws)"

definition table_rows :: "(json \<Rightarrow> pystr) \<Rightarrow> dict list \<Rightarrow> int option \<Rightarrow> row list" where
  "table_rows repr items limit = collect_rows repr limit 0 items"

text \<open>The list \<open>lines\<close> of the source, before it is joined.\<close>

definition table_lines :: "(json \<Rightarrow> pystr) \<Rightarrow> dict list \<Rightarrow> int option \<Rightarrow> pystr list" where
  "table_lines repr items limit =
     (let rows = table_rows repr items limit; ws = col_widths rows
      in [format_line ws headers, divider ws] @ map (\<lambda>r. format_line ws (cells r)) rows)"

definition build_table :: "(json \<Rightarrow> pystr) \<Rightarrow> dict list \<Rightarrow> int option \<Rightarrow> pystr" where
  "build_table repr items limit = join [10] (table_lines repr items limit)"

text \<open>The widest of a start width and the cells of column \<open>j\<close>.\<close>

definition colmax :: "nat \<Rightarrow> nat \<Rightarrow> row list \<Rightarrow> nat" where
  "colmax j w rows = foldl max w (map (\<lambda>r. length (cells r ! j)) rows)"

text \<open>The records of the payload
  \<^verbatim>\<open>{"storageType":"block","data":[{"name":"sys1","condition":"Normal"}]}\<close>.\<close>

definition scenario_items :: "dict list" where
  "scenario_items = [[(lit ''name'', JStr (lit ''sys1'')), (lit ''condition'', JStr (lit ''Normal''))]]"



section \<open>Exceptions and library functions\<close>

text \<open>
  The exceptions a run can end with. Those the source raises itself carry the message it
  builds; those raised inside Python's built-ins are given by their class alone.
\<close>

datatype exn =
    FileNotFoundError pystr
  | ValueError pystr
  | RuntimeError pystr
  | KeyError
  | TypeError
  | BuiltinValueError
  | OverflowError
  | AttributeError
  | UnicodeEncodeError

text \<open>
  Library functions whose algorithm is not embedded: \<open>repr\<close> of floats and containers,
  \<open>int()\<close> of a string (\<open>None\<close> where it raises \<open>ValueError\<close>) and \<open>json.dumps\<close> with
  \<open>indent=2\<close>.
\<close>

record pylib =
  py_repr :: "json \<Rightarrow> pystr"
  py_int_str :: "pystr \<Rightarrow> int option"
  json_dumps :: "json \<Rightarrow> pystr"

definition no_lib :: pylib where
  "no_lib = \<lparr>py_repr = no_repr, py_int_str = (\<lambda>s. None), json_dumps = (\<lambda>v. [])\<rparr>"

subsection \<open>UTF-8\<close>

text \<open>\<open>s.encode("utf-8")\<close>; \<open>None\<close> is \<open>UnicodeEncodeError\<close>, raised for a surrogate.\<close>

definition utf8_char :: "codepoint \<Rightarrow> nat list option" where
  "utf8_char c =
     (if c < 128 then Some [c]
      else if c < 2048 then Some [192 + c div 64, 128 + c mod 64]
      else if c < 65536 then
        (if 55296 \<le> c \<and> c \<le> 57343 then None
         else Some [224 + c div 4096, 128 + c div 64 mod 64, 128 + c mod 64])
      else Some [240 + c div 262144, 128 + c div 4096 mod 64, 128 + c div 64 mod 64,
                 128 + c mod 64])"

fun utf8_encode :: "pystr \<Rightarrow> nat list option" where
  "utf8_encode [] = Some []"
| "utf8_encode (c # cs) =
     (case utf8_char c of
        None \<Rightarrow> None
      | Some bs \<Rightarrow> (case utf8_encode cs of None \<Rightarrow> None | Some rest \<Rightarrow> Some (bs @ rest)))"

definition cont :: "nat \<Rightarrow> bool" where
  "cont b = (128 \<le> b \<and> b \<le> 191)"

definition second3 :: "nat \<Rightarrow> nat \<Rightarrow> bool" where
  "second3 b0 b1 =
     (if b0 = 224 then 160 \<le> b1 \<and> b1 \<le> 191
      else if b0 = 237 then 128 \<le> b1 \<and> b1 \<le> 159 else cont b1)"

definition second4 :: "nat \<Rightarrow> nat \<Rightarrow> bool" where
  "second4 b0 b1 =
     (if b0 = 240 then 144 \<le> b1 \<and> b1 \<le> 191
      else if b0 = 244 then 128 \<le> b1 \<and> b1 \<le> 143 else cont b1)"

text \<open>
  \<open>b.decode("utf-8", "ignore")\<close>: a well-formed sequence gives its code point; at an
  ill-formed one the bytes read so far are dropped and decoding goes on at the byte that
  did not fit; a sequence cut off by the end of the input is dropped.
\<close>

fun utf8_decode_ignore :: "nat list \<Rightarrow> pystr" where
  "utf8_decode_ignore [] = []"
| "utf8_decode_ignore (b0 # r) =
     (if b0 < 128 then b0 # utf8_decode_ignore r
      else if 194 \<le> b0 \<and> b0 \<le> 223 then
        (case r of
           [] \<Rightarrow> []
         | b1 # r1 \<Rightarrow>
             if cont b1 then ((b0 - 192) * 64 + (b1 - 128)) # utf8_decode_ignore r1
             else utf8_decode_ignore r)
      else if 224 \<le> b0 \<and> b0 \<le> 239 then
        (case r of
           [] \<Rightarrow> []
         | b1 # r1 \<Rightarrow>
             if \<not> second3 b0 b1 then utf8_decode_ignore r
             else (case r1 of
                     [] \<Rightarrow> []
                   | b2 # r2 \<Rightarrow>
                       if cont b2
                       then ((b0 - 224) * 4096 + (b1 - 128) * 64 + (b2 - 128)) #
                            utf8_decode_ignore r2
                       else utf8_decode_ignore r1))
      else if 240 \<le> b0 \<and> b0 \<le> 244 then
        (case r of
           [] \<Rightarrow> []
         | b1 # r1 \<Rightarrow>
             if \<not> second4 b0 b1 then utf8_decode_ignore r
             else (case r1 of
                     [] \<Rightarrow> []
                   | b2 # r2 \<Rightarrow>
                       if \<not> cont b2 then utf8_decode_ignore r1
                       else (case r2 of
                               [] \<Rightarrow> []
                             | b3 # r3 \<Rightarrow>
                                 if cont b3
                                 then ((b0 - 240) * 262144 + (b1 - 128) * 4096 +
                                       (b2 - 128) * 64 + (b3 - 128)) # utf8_decode_ignore r3
                                 else utf8_decode_ignore r2)))
      else utf8_decode_ignore r)"

subsection \<open>\<open>urllib.parse.urlencode\<close>\<close>

definition unreserved :: "nat \<Rightarrow> bool" where
  "unreserved b =
     ((48 \<le> b \<and> b \<le> 57) \<or> (65 \<le> b \<and> b \<le> 90) \<or> (97 \<le> b \<and> b \<le> 122) \<or>
      b = 95 \<or> b = 46 \<or> b = 45 \<or> b = 126)"

definition hex_digit :: "nat \<Rightarrow> codepoint" where
  "hex_digit n = (if n < 10 then 48 + n else 55 + n)"

text \<open>\<open>quote_plus\<close> on the encoded bytes: unreserved bytes stay, a space becomes
  \<open>+\<close>, every other byte becomes \<open>%XX\<close>.\<close>

definition quote_byte :: "nat \<Rightarrow> pystr" where
  "quote_byte b =
     (if unreserved b then [b] else if b = 32 then [43]
      else [37, hex_digit (b div 16), hex_digit (b mod 16)])"

definition quote_plus :: "pystr \<Rightarrow> exn + pystr" where
  "quote_plus s =
     (case utf8_encode s of
        None \<Rightarrow> Inl UnicodeEncodeError
      | Some bs \<Rightarrow> Inr (concat (map quote_byte bs)))"

text \<open>\<open>urlencode({key: value})\<close> for a dict of one string key and one string value.\<close>

definition urlencode1 :: "pystr \<Rightarrow> pystr \<Rightarrow> exn + pystr" where
  "urlencode1 key v =
     (case quote_plus key of
        Inl e \<Rightarrow> Inl e
      | Inr k \<Rightarrow> (case quote_plus v of Inl e \<Rightarrow> Inl e | Inr q \<Rightarrow> Inr (k @ lit ''='' @ q)))"

text \<open>
  What a server does with the value of a query parameter: \<open>+\<close> is a space and
  \<open>%XX\<close> is the byte with that hexadecimal number.
\<close>

definition hex_value :: "codepoint \<Rightarrow> nat" where
  "hex_value c = (if c < 58 then c - 48 else c - 55)"

fun unquote_plus :: "pystr \<Rightarrow> nat list" where
  "unquote_plus [] = []"
| "unquote_plus (p # cs) =
     (if p = 37 then
        (case cs of
           h # l # rest \<Rightarrow> (hex_value h * 16 + hex_value l) # unquote_plus rest
         | _ \<Rightarrow> p # unquote_plus cs)
      else (if p = 43 then 32 else p) # unquote_plus cs)"

section \<open>The HTTP client\<close>

definition API_BASE :: pystr where
  "API_BASE = lit ''https://dev.insights.ibm.com''"

text \<open>\<open>TOKEN_PATH.format(tenant_uuid=tenant_uuid)\<close>\<close>

definition TOKEN_PATH :: "pystr \<Rightarrow> pystr" where
  "TOKEN_PATH tenant_uuid = lit ''/restapi/v1/tenants/'' @ tenant_uuid @ lit ''/token''"

definition STORAGE_SYSTEMS_PATH :: "pystr \<Rightarrow> pystr" where
  "STORAGE_SYSTEMS_PATH tenant_uuid =
     lit ''/restapi/v1/tenants/'' @ tenant_uuid @ lit ''/storage-systems''"

text \<open>The request handed to \<open>urlopen\<close>: the arguments of \<open>Request\<close>, the headers in
  the order they were added, and the timeout.\<close>

record request =
  req_url :: pystr
  req_method :: pystr
  req_headers :: "(pystr \<times> json) list"
  req_body :: "nat list option"
  req_timeout :: int

text \<open>
  What \<open>urlopen\<close> and reading the response come to. \<open>Returned\<close>: a response was read
  and decoded, and the component is what \<open>json.loads\<close> makes of the text, \<open>Inl\<close> the
  text of the \<open>JSONDecodeError\<close>, \<open>Inr\<close> the document. \<open>HTTPError\<close>: the status code and
  the raw body of an error response. \<open>URLError\<close>: the reason of a failure to connect.
\<close>

datatype http_outcome =
    Returned "pystr + json"
  | HTTPError int "nat list"
  | URLError pystr

type_synonym transport = "request \<Rightarrow> http_outcome"

text \<open>What a run does to the world, in order. Writes and prints are tagged with the
  statement of \<open>main\<close> that makes them.\<close>

datatype sink = TokenOut | JsonOut | TableOut
datatype print_kind = Info | Table

datatype event =
    Requested request
  | Printed print_kind pystr
  | Wrote sink pystr pystr

type_synonym 'a io = "event list \<times> (exn + 'a)"

text \<open>The body to send: a \<open>str\<close> is encoded, \<open>None\<close> stays \<open>None\<close>.\<close>

definition encode_body :: "pystr option \<Rightarrow> nat list option option" where
  "encode_body data = (case data of None \<Rightarrow> Some None | Some d \<Rightarrow> map_option Some (utf8_encode d))"

definition build_request ::
  "pystr \<Rightarrow> pystr \<Rightarrow> (pystr \<times> json) list \<Rightarrow> nat list option \<Rightarrow> int \<Rightarrow> request" where
  "build_request url method hdrs body timeout =
     \<lparr>req_url = url, req_method = method,
      req_headers = (lit ''Accept'', JStr (lit ''application/json'')) # hdrs,
      req_body = body, req_timeout = timeout\<rparr>"

definition request_json ::
  "transport \<Rightarrow> pystr \<Rightarrow> pystr \<Rightarrow> (pystr \<times> json) list \<Rightarrow> pystr option \<Rightarrow> int \<Rightarrow> json io" where
  "request_json net url method hdrs data timeout =
     (case encode_body data of
        None \<Rightarrow> ([], Inl UnicodeEncodeError)
      | Some body \<Rightarrow>
          (let req = build_request url method hdrs body timeout
           in ([Requested req],
               (case net req of
                  HTTPError code raw \<Rightarrow>
                    Inl (RuntimeError (lit ''HTTP '' @ str_int code @ lit '' for '' @ url @
                                       lit '': '' @ utf8_decode_ignore raw))
                | URLError reason \<Rightarrow>
                    Inl (RuntimeError (lit ''Failed to reach '' @ url @ lit '': '' @ reason))
                | Returned (Inl err) \<Rightarrow>
                    Inl (RuntimeError (lit ''Invalid JSON response from '' @ url @ lit '': '' @
                                       err))
                | Returned (Inr doc) \<Rightarrow> Inr doc))))"

section \<open>The token\<close>

text \<open>\<open>v[key]\<close> for a string key.\<close>

definition subscript :: "json \<Rightarrow> pystr \<Rightarrow> exn + json" where
  "subscript v key =
     (case v of
        JDict kvs \<Rightarrow> (case map_of kvs key of None \<Rightarrow> Inl KeyError | Some x \<Rightarrow> Inr x)
      | _ \<Rightarrow> Inl TypeError)"

text \<open>\<open>int(v)\<close>: a float is cut towards zero.\<close>

definition py_int :: "pylib \<Rightarrow> json \<Rightarrow> exn + int" where
  "py_int L v =
     (case v of
        JInt n \<Rightarrow> Inr n
      | JBool b \<Rightarrow> Inr (if b then 1 else 0)
      | JFloat (Finite q) \<Rightarrow> Inr (if q < 0 then - \<lfloor>- q\<rfloor> else \<lfloor>q\<rfloor>)
      | JFloat NegZero \<Rightarrow> Inr 0
      | JFloat NaN \<Rightarrow> Inl BuiltinValueError
      | JFloat _ \<Rightarrow> Inl OverflowError
      | JStr s \<Rightarrow> (case py_int_str L s of None \<Rightarrow> Inl BuiltinValueError | Some n \<Rightarrow> Inr n)
      | _ \<Rightarrow> Inl TypeError)"

text \<open>The body of the \<open>try\<close> in \<open>obtain_token\<close>.\<close>

definition token_fields :: "pylib \<Rightarrow> json \<Rightarrow> exn + (json \<times> int)" where
  "token_fields L response =
     (case subscript response (lit ''result'') of
        Inl e \<Rightarrow> Inl e
      | Inr result \<Rightarrow>
          (case subscript result (lit ''token'') of
             Inl e \<Rightarrow> Inl e
           | Inr token \<Rightarrow>
               (case subscript result (lit ''expiration'') of
                  Inl e \<Rightarrow> Inl e
                | Inr x \<Rightarrow> (case py_int L x of Inl e \<Rightarrow> Inl e | Inr n \<Rightarrow> Inr (token, n)))))"

text \<open>The classes named by \<open>except (KeyError, TypeError, ValueError)\<close>.\<close>

definition caught :: "exn \<Rightarrow> bool" where
  "caught e = (e = KeyError \<or> e = TypeError \<or> e = BuiltinValueError)"

text \<open>The request of \<open>obtain_token\<close>.\<close>

definition token_exchange :: "transport \<Rightarrow> pystr \<Rightarrow> pystr \<Rightarrow> json io" where
  "token_exchange net api_key tenant_uuid =
     request_json net (API_BASE @ TOKEN_PATH tenant_uuid) (lit ''POST'')
       [(lit ''x-api-key'', JStr api_key),
        (lit ''Content-Type'', JStr (lit ''application/json''))]
       (Some (lit ''{}'')) 30"

definition obtain_token :: "pylib \<Rightarrow> transport \<Rightarrow> pystr \<Rightarrow> pystr \<Rightarrow> (json \<times> int) io" where
  "obtain_token L net api_key tenant_uuid =
     (case token_exchange net api_key tenant_uuid of
        (evs, Inl e) \<Rightarrow> (evs, Inl e)
      | (evs, Inr response) \<Rightarrow>
          (evs,
           (case token_fields L response of
              Inr r \<Rightarrow> Inr r
            | Inl e \<Rightarrow>
                if caught e
                then Inl (RuntimeError (lit ''Unexpected token response structure: '' @
                                        py_str (py_repr L) response))
                else Inl e)))"

text \<open>A server that answers every request with the document \<open>doc\<close>.\<close>

definition reply :: "json \<Rightarrow> transport" where
  "reply doc = (\<lambda>req. Returned (Inr doc))"

text \<open>The token response \<^verbatim>\<open>{"result": {"token": "T", "expiration": x}}\<close>.\<close>

definition token_doc :: "json \<Rightarrow> json" where
  "token_doc x =
     JDict [(lit ''result'', JDict [(lit ''token'', JStr (lit ''T'')), (lit ''expiration'', x)])]"

section \<open>The listing\<close>

definition storage_systems_url :: "pystr \<Rightarrow> pystr option \<Rightarrow> exn + pystr" where
  "storage_systems_url tenant_uuid storage_type =
     (case (case storage_type of
              None \<Rightarrow> Inr []
            | Some st \<Rightarrow>
                if st = [] then Inr []
                else (case urlencode1 (lit ''storage-type'') st of
                        Inl e \<Rightarrow> Inl e
                      | Inr q \<Rightarrow> Inr (lit ''?'' @ q))) of
        Inl e \<Rightarrow> Inl e
      | Inr query \<Rightarrow> Inr (API_BASE @ STORAGE_SYSTEMS_PATH tenant_uuid @ query))"

definition fetch_storage_systems :: "transport \<Rightarrow> pystr \<Rightarrow> json \<Rightarrow> pystr option \<Rightarrow> json io" where
  "fetch_storage_systems net tenant_uuid token storage_type =
     (case storage_systems_url tenant_uuid storage_type of
        Inl e \<Rightarrow> ([], Inl e)
      | Inr url \<Rightarrow> request_json net url (lit ''GET'') [(lit ''x-api-token'', token)] None 30)"

section \<open>Credentials\<close>

text \<open>The code points for which \<open>str.isspace\<close> holds; \<open>strip\<close> removes them at both
  ends.\<close>

definition isspace :: "codepoint \<Rightarrow> bool" where
  "isspace c =
     ((9 \<le> c \<and> c \<le> 13) \<or> (28 \<le> c \<and> c \<le> 32) \<or> c = 133 \<or> c = 160 \<or> c = 5760 \<or>
      (8192 \<le> c \<and> c \<le> 8202) \<or> c = 8232 \<or> c = 8233 \<or> c = 8239 \<or> c = 8287 \<or> c = 12288)"

definition strip :: "pystr \<Rightarrow> pystr" where
  "strip s = rev (dropWhile isspace (rev (dropWhile isspace s)))"

text \<open>The line boundaries of \<open>str.splitlines\<close>; \<open>\r\n\<close> counts as one. \<open>cur\<close> holds
  the line being read, last character first.\<close>

definition linebreak :: "codepoint \<Rightarrow> bool" where
  "linebreak c =
     ((10 \<le> c \<and> c \<le> 13) \<or> (28 \<le> c \<and> c \<le> 30) \<or> c = 133 \<or> c = 8232 \<or> c = 8233)"

fun splitlines_from :: "pystr \<Rightarrow> pystr \<Rightarrow> pystr list" where
  "splitlines_from cur [] = (if cur = [] then [] else [rev cur])"
| "splitlines_from cur (c # cs) =
     (if c = 13 then
        (case cs of
           [] \<Rightarrow> rev cur # splitlines_from [] cs
         | d # ds \<Rightarrow>
             if d = 10 then rev cur # splitlines_from [] ds
             else rev cur # splitlines_from [] cs)
      else if linebreak c then rev cur # splitlines_from [] cs
      else splitlines_from (c # cur) cs)"

definition splitlines :: "pystr \<Rightarrow> pystr list" where
  "splitlines s = splitlines_from [] s"

text \<open>
  \<open>str.lower\<close>. The keys are only compared with the ASCII words \<open>apikey\<close> and
  \<open>tenantid\<close>: the mapping is given for the code points whose lower case holds an
  ASCII letter (\<open>A\<close> to \<open>Z\<close>, the Kelvin sign U+212A, the dotted capital I U+0130); any
  other code point stands for its own lower case, which is outside ASCII as well.
\<close>

definition lower_cp :: "codepoint \<Rightarrow> pystr" where
  "lower_cp c =
     (if 65 \<le> c \<and> c \<le> 90 then [c + 32]
      else if c = 8490 then [107]
      else if c = 304 then [105, 775]
      else [c])"

definition lower :: "pystr \<Rightarrow> pystr" where
  "lower s = concat (map lower_cp s)"

text \<open>The body of the loop up to the comparison of the key: the key and value of a line,
  \<open>None\<close> for a line that is skipped.\<close>

definition cred_entry :: "pystr \<Rightarrow> (pystr \<times> pystr) option" where
  "cred_entry raw_line =
     (let line = strip raw_line
      in case line of
           [] \<Rightarrow> None
         | c # _ \<Rightarrow>
             if c = 35 then None
             else if 58 \<notin> set line then None
             else Some (lower (strip (takeWhile (\<lambda>x. x \<noteq> 58) line)),
                        strip (tl (dropWhile (\<lambda>x. x \<noteq> 58) line))))"

definition creds_step :: "pystr option \<times> pystr option \<Rightarrow> pystr \<Rightarrow> pystr option \<times> pystr option" where
  "creds_step st raw_line =
     (case st of (api_key, tenant_id) \<Rightarrow>
        (case cred_entry raw_line of
           None \<Rightarrow> (api_key, tenant_id)
         | Some (key, v) \<Rightarrow>
             if key = lit ''apikey'' then (Some v, tenant_id)
             else if key = lit ''tenantid'' then (api_key, Some v)
             else (api_key, tenant_id)))"

definition creds_missing :: exn where
  "creds_missing = ValueError (lit ''Both 'apikey' and 'tenantid' must be present in creds file'')"

text \<open>\<open>file\<close> is the text of the file at \<open>path\<close>, \<open>None\<close> when there is no such file.\<close>

definition read_creds :: "pystr \<Rightarrow> pystr option \<Rightarrow> exn + (pystr \<times> pystr)" where
  "read_creds path file =
     (case file of
        None \<Rightarrow> Inl (FileNotFoundError (lit ''Credential file not found: '' @ path))
      | Some text \<Rightarrow>
          (case foldl creds_step (None, None) (splitlines text) of
             (Some api_key, Some tenant_id) \<Rightarrow>
               if api_key = [] \<or> tenant_id = [] then Inl creds_missing
               else Inr (api_key, tenant_id)
           | _ \<Rightarrow> Inl creds_missing))"

text \<open>What a file stores for a key: the value of the last line that gives the key.\<close>

definition entry_values :: "pystr \<Rightarrow> pystr list \<Rightarrow> pystr list" where
  "entry_values key lines =
     map snd (filter (\<lambda>kv. fst kv = key) (List.map_filter cred_entry lines))"

definition stored :: "pystr \<Rightarrow> pystr list \<Rightarrow> pystr option" where
  "stored key lines =
     (case entry_values key lines of [] \<Rightarrow> None | v # vs \<Rightarrow> Some (last (v # vs)))"

text \<open>A credentials file with a comment, a key in mixed case, a value with a colon
  and a \<open>\r\n\<close> line end.\<close>

definition creds_example :: pystr where
  "creds_example =
     lit ''# c'' @ [10] @ lit ''APIKey : k:1 '' @ [13, 10] @ lit ''tenantid:t1'' @ [10]"

section \<open>The orchestrator\<close>

text \<open>The parsed command line.\<close>

record args =
  creds :: pystr
  storage_type :: pystr
  json_out :: "pystr option"
  table :: bool
  table_out :: "pystr option"
  token_out :: "pystr option"
  limit :: "int option"
  quiet :: bool

text \<open>What a run reads from outside: the credentials file (\<open>None\<close> when absent) and
  the server.\<close>

record world =
  creds_file :: "pystr option"
  net :: transport

text \<open>Statements in sequence: an exception ends the run with the events made so far.\<close>

definition then_io :: "'a io \<Rightarrow> ('a \<Rightarrow> 'b io) \<Rightarrow> 'b io" where
  "then_io m f =
     (case m of
        (evs, Inl e) \<Rightarrow> (evs, Inl e)
      | (evs, Inr x) \<Rightarrow> (case f x of (evs', r) \<Rightarrow> (evs @ evs', r)))"

text \<open>\<open>if not args.quiet: print(text)\<close>\<close>

definition info :: "args \<Rightarrow> pystr \<Rightarrow> unit io" where
  "info a text = (if quiet a then ([], Inr ()) else ([Printed Info text], Inr ()))"

text \<open>\<open>token + "\n"\<close> raises \<open>TypeError\<close> for a token that is not a string.\<close>

definition write_token :: "args \<Rightarrow> json \<Rightarrow> unit io" where
  "write_token a token =
     (case token_out a of
        None \<Rightarrow> ([], Inr ())
      | Some path \<Rightarrow>
          (case token of
             JStr t \<Rightarrow>
               then_io ([Wrote TokenOut path (t @ [10])], Inr ())
                 (\<lambda>_. info a (lit ''Wrote token to '' @ path))
           | _ \<Rightarrow> ([], Inl TypeError)))"

definition py_len :: "json \<Rightarrow> exn + nat" where
  "py_len v =
     (case v of
        JList xs \<Rightarrow> Inr (length xs)
      | JStr s \<Rightarrow> Inr (length s)
      | JDict kvs \<Rightarrow> Inr (length (remdups (map fst kvs)))
      | _ \<Rightarrow> Inl TypeError)"

definition py_iter :: "json \<Rightarrow> exn + json list" where
  "py_iter v =
     (case v of
        JList xs \<Rightarrow> Inr xs
      | JStr s \<Rightarrow> Inr (map (\<lambda>c. JStr [c]) s)
      | JDict kvs \<Rightarrow> Inr (map JStr (remdups (map fst kvs)))
      | _ \<Rightarrow> Inl TypeError)"

text \<open>
  \<open>build_table\<close> on what \<open>payload.get("data", [])\<close> gave: iterating raises \<open>TypeError\<close> for
  a value that cannot be iterated, and \<open>item.get\<close> raises \<open>AttributeError\<close> for an item
  that is not a dict, among the items the loop reaches before the limit.
\<close>

fun as_dicts :: "json list \<Rightarrow> dict list option" where
  "as_dicts [] = Some []"
| "as_dicts (JDict d # vs) = map_option ((#) d) (as_dicts vs)"
| "as_dicts (v # vs) = None"

definition build_table_of :: "pylib \<Rightarrow> json \<Rightarrow> int option \<Rightarrow> exn + pystr" where
  "build_table_of L systems lmt =
     (case py_iter systems of
        Inl e \<Rightarrow> Inl e
      | Inr items \<Rightarrow>
          (case as_dicts (case lmt of None \<Rightarrow> items | Some k \<Rightarrow> take (nat k) items) of
             None \<Rightarrow> Inl AttributeError
           | Some ds \<Rightarrow> Inr (build_table (py_repr L) ds lmt)))"

definition summary :: "pylib \<Rightarrow> args \<Rightarrow> dict \<Rightarrow> json \<Rightarrow> unit io" where
  "summary L a payload systems =
     (if quiet a then ([], Inr ())
      else let st = get payload (lit ''storageType'') JNull;
               summary_type = (if truthy st then py_str (py_repr L) st
                               else if storage_type a \<noteq> [] then storage_type a
                               else lit ''all'')
           in case py_len systems of
                Inl e \<Rightarrow> ([], Inl e)
              | Inr n \<Rightarrow>
                  ([Printed Info (lit ''Retrieved '' @ str_int (int n) @
                                  lit '' storage systems (storageType='' @ summary_type @
                                  lit '')'')], Inr ()))"

definition write_json :: "pylib \<Rightarrow> args \<Rightarrow> json \<Rightarrow> unit io" where
  "write_json L a payload =
     (case json_out a of
        None \<Rightarrow> ([], Inr ())
      | Some path \<Rightarrow>
          then_io ([Wrote JsonOut path (json_dumps L payload @ [10])], Inr ())
            (\<lambda>_. info a (lit ''Wrote JSON payload to '' @ path)))"

definition write_table :: "pylib \<Rightarrow> args \<Rightarrow> json \<Rightarrow> unit io" where
  "write_table L a systems =
     (if table a \<or> table_out a \<noteq> None then
        (case build_table_of L systems (limit a) of
           Inl e \<Rightarrow> ([], Inl e)
         | Inr table_text \<Rightarrow>
             then_io ((if table a then [Printed Table table_text] else []), Inr ())
               (\<lambda>_. case table_out a of
                       None \<Rightarrow> ([], Inr ())
                     | Some path \<Rightarrow>
                         then_io ([Wrote TableOut path (table_text @ [10])], Inr ())
                           (\<lambda>_. info a (lit ''Wrote table to '' @ path))))
      else ([], Inr ()))"

text \<open>\<open>main\<close> from \<open>payload.get("data", [])\<close> on.\<close>

definition after_fetch :: "pylib \<Rightarrow> args \<Rightarrow> json \<Rightarrow> unit io" where
  "after_fetch L a payload =
     (case payload of
        JDict kvs \<Rightarrow>
          (let systems = get kvs (lit ''data'') (JList [])
           in then_io (summary L a kvs systems)
                (\<lambda>_. then_io (write_json L a payload) (\<lambda>_. write_table L a systems)))
      | _ \<Rightarrow> ([], Inl AttributeError))"

text \<open>\<open>main\<close> from the writing of the token on.\<close>

definition after_token :: "pylib \<Rightarrow> world \<Rightarrow> args \<Rightarrow> pystr \<Rightarrow> json \<Rightarrow> int \<Rightarrow> unit io" where
  "after_token L w a tenant_uuid token expiration_ms =
     then_io (write_token a token)
       (\<lambda>_. then_io (info a (lit ''Token expiration (UTC): '' @
                              format_ts (py_repr L) (JInt expiration_ms)))
         (\<lambda>_. then_io (fetch_storage_systems (net w) tenant_uuid token
                          (if storage_type a = [] then None else Some (storage_type a)))
           (after_fetch L a)))"

definition main :: "pylib \<Rightarrow> world \<Rightarrow> args \<Rightarrow> int io" where
  "main L w a =
     then_io ([], read_creds (creds a) (creds_file w))
       (\<lambda>(api_key, tenant_uuid).
          then_io (info a (lit ''Using tenant: '' @ tenant_uuid))
            (\<lambda>_. then_io (obtain_token L (net w) api_key tenant_uuid)
              (\<lambda>(token, expiration_ms).
                 then_io (after_token L w a tenant_uuid token expiration_ms)
                   (\<lambda>_. ([], Inr 0)))))"

text \<open>The requests among the events, and the events that put the table or the JSON
  payload into a sink.\<close>

fun requests_of :: "event list \<Rightarrow> request list" where
  "requests_of [] = []"
| "requests_of (Requested r # evs) = r # requests_of evs"
| "requests_of (ev # evs) = requests_of evs"

fun is_output :: "event \<Rightarrow> bool" where
  "is_output (Wrote JsonOut p x) = True"
| "is_output (Wrote TableOut p x) = True"
| "is_output (Printed Table x) = True"
| "is_output ev = False"

text \<open>A command line that asks for every output, a server that cannot be reached, and a
  server that issues a token and then answers the listing with status 500.\<close>

definition all_outputs :: args where
  "all_outputs = \<lparr>creds = lit ''creds'', storage_type = lit ''block'', json_out = Some (lit ''out.json''),
     table = True, table_out = Some (lit ''out.txt''), token_out = Some (lit ''token.txt''),
     limit = None, quiet = False\<rparr>"

definition unreachable :: world where
  "unreachable = \<lparr>creds_file = Some creds_example, net = (\<lambda>req. URLError (lit ''down''))\<rparr>"

definition listing_down :: world where
  "listing_down = \<lparr>creds_file = Some creds_example,
     net = (\<lambda>req. if req_method req = lit ''POST'' then Returned (Inr (token_doc (JInt 5)))
                   else HTTPError 500 [])\<rparr>"

section \<open>Properties of the table\<close>


lemma foldl_widen:
  "foldl widen [a, b, c, d] rows = [colmax 0 a rows, colmax 1 b rows, colmax 2 c rows, colmax 3 d rows]"
proof (induction rows arbitrary: a b c d)
  case Nil
  show ?case by (simp add: colmax_def)
next
  case (Cons r rows)
  obtain p q s t where r: "r = (p, q, s, t)" by (cases r) auto
  have "widen [a, b, c, d] r = [max a (length p), max b (length q), max c (length s), max d (length t)]"
    by (simp add: widen_def cells_def r)
  then show ?case
    using Cons [of "max a (length p)" "max b (length q)" "max c (length s)" "max d (length t)"]
    by (simp add: colmax_def cells_def r)
qed

lemma Max_insert_max:
  "finite S \<Longrightarrow> Max (insert (max (w::nat) x) S) = Max (insert w (insert x S))"
  by (cases "S = {}") (simp_all add: max.assoc)

lemma foldl_max_Max: "foldl max (w::nat) xs = Max (insert w (set xs))"
proof (induction xs arbitrary: w)
  case Nil
  show ?case by simp
next
  case (Cons x xs)
  have "foldl max w (x # xs) = Max (insert (max w x) (set xs))"
    using Cons [of "max w x"] by simp
  also have "\<dots> = Max (insert w (insert x (set xs)))"
    by (rule Max_insert_max) simp
  finally show ?case by simp
qed

lemma colmax_Max: "colmax j w rows = Max (insert w ((\<lambda>r. length (cells r ! j)) ` set rows))"
  by (simp add: colmax_def foldl_max_Max)

lemma colmax_ge_start: "w \<le> colmax j w rows"
  by (simp add: colmax_Max)

lemma colmax_ge_cell: "r \<in> set rows \<Longrightarrow> length (cells r ! j) \<le> colmax j w rows"
  by (simp add: colmax_Max)

lemma length_pad: "length (pad w s) = max w (length s)"
  by (simp add: pad_def)

lemma length_format_line4:
  "length (format_line [a, b, c, d] [p, q, s, t]) =
     max a (length p) + max b (length q) + max c (length s) + max d (length t) + 9"
  by (simp add: format_line_def length_pad lit_def)

lemma length_divider4: "length (divider [a, b, c, d]) = a + b + c + d + 9"
  by (simp add: divider_def lit_def)

lemma headers4: "headers = [headers ! 0, headers ! 1, headers ! 2, headers ! 3]"
  by (simp add: headers_def)

lemma col_widths_eq:
  "col_widths rows = [colmax 0 (length (headers ! 0)) rows, colmax 1 (length (headers ! 1)) rows,
                      colmax 2 (length (headers ! 2)) rows, colmax 3 (length (headers ! 3)) rows]"
proof -
  have "map length headers = [length (headers ! 0), length (headers ! 1),
                              length (headers ! 2), length (headers ! 3)]"
    by (simp add: headers_def)
  then show ?thesis
    by (simp add: col_widths_def foldl_widen)
qed

lemma length_header_line:
  "length (format_line (col_widths rows) headers) = sum_list (col_widths rows) + 9"
proof -
  have "\<And>j. max (colmax j (length (headers ! j)) rows) (length (headers ! j)) = colmax j (length (headers ! j)) rows"
    by (rule max_absorb1) (rule colmax_ge_start)
  moreover have "format_line (col_widths rows) headers =
      format_line (col_widths rows) [headers ! 0, headers ! 1, headers ! 2, headers ! 3]"
    by (rule arg_cong [OF headers4])
  ultimately show ?thesis
    by (simp add: col_widths_eq length_format_line4)
qed

lemma length_body_line:
  assumes "r \<in> set rows"
  shows "length (format_line (col_widths rows) (cells r)) = sum_list (col_widths rows) + 9"
proof -
  obtain p q s t where r: "r = (p, q, s, t)" by (cases r) auto
  have c: "cells r = [cells r ! 0, cells r ! 1, cells r ! 2, cells r ! 3]"
    by (simp add: cells_def r)
  have "\<And>j w. max (colmax j w rows) (length (cells r ! j)) = colmax j w rows"
    by (rule max_absorb1) (rule colmax_ge_cell [OF assms])
  moreover have "format_line (col_widths rows) (cells r) =
      format_line (col_widths rows) [cells r ! 0, cells r ! 1, cells r ! 2, cells r ! 3]"
    by (rule arg_cong [OF c])
  ultimately show ?thesis
    by (simp add: col_widths_eq length_format_line4)
qed

lemma length_divider_line: "length (divider (col_widths rows)) = sum_list (col_widths rows) + 9"
  by (simp add: col_widths_eq length_divider4)

text \<open>
  Claim C10. Whatever the records and the limit, the header line, the divider line and
  every body line have the same length: the sum of the four column widths plus the nine
  characters of the three separators. Each column width is the greatest of the header's
  length and the lengths of that column's cells.
\<close>

theorem table_lines_same_length:
  "(\<forall>l \<in> set (table_lines repr items lmt).
      length l = sum_list (col_widths (table_rows repr items lmt)) + 9) \<and>
   (\<forall>j < 4. col_widths (table_rows repr items lmt) ! j =
      Max (insert (length (headers ! j))
            ((\<lambda>r. length (cells r ! j)) ` set (table_rows repr items lmt))))"
proof
  show "\<forall>l \<in> set (table_lines repr items lmt).
      length l = sum_list (col_widths (table_rows repr items lmt)) + 9"
    by (auto simp: table_lines_def Let_def length_header_line length_divider_line length_body_line)
next
  show "\<forall>j < 4. col_widths (table_rows repr items lmt) ! j =
      Max (insert (length (headers ! j))
            ((\<lambda>r. length (cells r ! j)) ` set (table_rows repr items lmt)))"
  proof (intro allI impI)
    fix j :: nat
    assume "j < 4"
    then consider "j = 0" | "j = 1" | "j = 2" | "j = 3" by arith
    then show "col_widths (table_rows repr items lmt) ! j =
      Max (insert (length (headers ! j))
            ((\<lambda>r. length (cells r ! j)) ` set (table_rows repr items lmt)))"
      by cases (simp_all add: col_widths_eq colmax_Max)
  qed
qed

theorem table_lines_same_length_witness:
  "divider (col_widths (table_rows no_repr scenario_items None))
     \<in> set (table_lines no_repr scenario_items None) \<and> (0::nat) < 4 \<and>
   length (divider (col_widths (table_rows no_repr scenario_items None))) =
     sum_list (col_widths (table_rows no_repr scenario_items None)) + 9 \<and>
   col_widths (table_rows no_repr scenario_items None) ! 0 =
     Max (insert (length (headers ! 0))
           ((\<lambda>r. length (cells r ! 0)) ` set (table_rows no_repr scenario_items None)))"
  using table_lines_same_length [of no_repr scenario_items None]
  by (simp add: table_lines_def Let_def)


section \<open>Properties of the timestamp format\<close>

lemma ilog2_1700000000: "ilog2 1700000000 = 30"
  by (simp add: ilog2_def compute_bitlen power_int_def)

lemma round64_1700000000: "round64 1700000000 = 1700000000"
  using ilog2_1700000000
  by (simp add: round64_def Let_def round_half_even_def power_int_def power_one_over)

lemma truediv_1700000000000: "truediv_1000 (JInt 1700000000000) = Some (Finite 1700000000)"
  using round64_1700000000 by (simp add: truediv_1000_def fdiv_def Let_def)

lemma split_seconds_1700000000: "split_seconds 1700000000 = (1700000000, 0)"
  by (simp add: split_seconds_def Let_def round64_def round_half_even_def)

lemma ord2ymd_738838: "ord2ymd 738838 = (2023, 11, 14)"
  by (simp add: ord2ymd_def Let_def days_before_month_def days_in_month_def)

lemma fromtimestamp_1700000000:
  "fromtimestamp_utc (Finite 1700000000) =
     Some \<lparr>year = 2023, month = 11, day = 14, hour = 22, minute = 13, second = 20,
           microsecond = 0\<rparr>"
  using split_seconds_1700000000 ord2ymd_738838 by (simp add: fromtimestamp_utc_def Let_def)

lemma isoformat_2023:
  "isoformat \<lparr>year = 2023, month = 11, day = 14, hour = 22, minute = 13, second = 20,
               microsecond = 0\<rparr> = lit ''2023-11-14T22:13:20+00:00''"
  by (simp add: isoformat_def zpad_def digits.simps lit_def)

lemma format_ts_1700000000000:
  "format_ts repr (JInt 1700000000000) = lit ''2023-11-14T22:13:20+00:00''"
  using truediv_1700000000000 fromtimestamp_1700000000 isoformat_2023
  by (simp add: format_ts_def)

lemma format_ts_falsy: "\<not> truthy v \<Longrightarrow> format_ts repr v = placeholder"
  by (simp add: format_ts_def)

text \<open>
  Claim C9. The epoch-millisecond value 1700000000000 is formatted as
  \<open>2023-11-14T22:13:20+00:00\<close>, an ISO-8601 timestamp with the UTC offset that begins
  \<open>2023-11-14T22:13:20\<close>; the value 0 and an absent value (\<open>None\<close>, also what the
  lookup of a missing key gives) are formatted as the placeholder.
\<close>

theorem format_ts_examples:
  "format_ts repr (JInt 1700000000000) = lit ''2023-11-14T22:13:20'' @ lit ''+00:00'' \<and>
   format_ts repr (JInt 0) = placeholder \<and>
   format_ts repr JNull = placeholder \<and>
   format_ts repr (get [] (lit ''last_successful_probe'') JNull) = placeholder"
  by (simp add: format_ts_1700000000000 format_ts_falsy get_def) (simp add: lit_def)

section \<open>The scenario of one record without timestamps\<close>













section \<open>Properties of the token exchange\<close>

lemma obtain_token_ok:
  assumes "snd (token_exchange srv k t) = Inr response"
    and "token_fields L response = Inr r"
  shows "snd (obtain_token L srv k t) = Inr r"
  using assms by (cases "token_exchange srv k t") (simp add: obtain_token_def)

lemma obtain_token_caught:
  assumes "snd (token_exchange srv k t) = Inr response"
    and "token_fields L response = Inl e" and "caught e"
  shows "snd (obtain_token L srv k t) =
    Inl (RuntimeError (lit ''Unexpected token response structure: '' @ py_str (py_repr L) response))"
  using assms by (cases "token_exchange srv k t") (simp add: obtain_token_def)

lemma subscript_caught: "subscript v key = Inl e \<Longrightarrow> caught e"
  by (auto simp: subscript_def caught_def split: json.splits option.splits)

text \<open>
  Claim C2. When the token endpoint answers with a document whose \<open>result\<close> holds a
  string \<open>token\<close> \<open>T\<close> and an integer \<open>expiration\<close> \<open>E\<close>, \<open>obtain_token\<close> returns
  the pair \<open>(T, E)\<close>. When \<open>result\<close> is missing, or \<open>token\<close> or \<open>expiration\<close> is missing
  from it, \<open>obtain_token\<close> fails with the \<open>RuntimeError\<close> "Unexpected token response
  structure" (the spec's \<open>MalformedResponseError\<close>) and returns no default.
\<close>

theorem token_response_shape:
  assumes "snd (token_exchange srv k t) = Inr response"
  shows "(subscript response (lit ''result'') = Inr res \<and>
          subscript res (lit ''token'') = Inr (JStr T) \<and>
          subscript res (lit ''expiration'') = Inr (JInt E)
          \<longrightarrow> snd (obtain_token L srv k t) = Inr (JStr T, E)) \<and>
         (isl (subscript response (lit ''result'')) \<or>
          (subscript response (lit ''result'') = Inr res \<and>
           (isl (subscript res (lit ''token'')) \<or> isl (subscript res (lit ''expiration''))))
          \<longrightarrow> snd (obtain_token L srv k t) =
                Inl (RuntimeError (lit ''Unexpected token response structure: '' @
                                   py_str (py_repr L) response)))"
proof (intro conjI impI)
  assume "subscript response (lit ''result'') = Inr res \<and>
          subscript res (lit ''token'') = Inr (JStr T) \<and>
          subscript res (lit ''expiration'') = Inr (JInt E)"
  then have "token_fields L response = Inr (JStr T, E)"
    by (simp add: token_fields_def py_int_def)
  with assms show "snd (obtain_token L srv k t) = Inr (JStr T, E)"
    by (rule obtain_token_ok)
next
  assume a: "isl (subscript response (lit ''result'')) \<or>
          (subscript response (lit ''result'') = Inr res \<and>
           (isl (subscript res (lit ''token'')) \<or> isl (subscript res (lit ''expiration''))))"
  have "\<exists>e. token_fields L response = Inl e \<and> caught e"
    using a by (auto simp: token_fields_def isl_def dest: subscript_caught split: sum.splits)
  then obtain e where "token_fields L response = Inl e" "caught e" by blast
  with assms show "snd (obtain_token L srv k t) =
                Inl (RuntimeError (lit ''Unexpected token response structure: '' @
                                   py_str (py_repr L) response))"
    by (rule obtain_token_caught)
qed

lemma token_exchange_reply: "snd (token_exchange (reply doc) k t) = Inr doc"
  by (simp add: token_exchange_def request_json_def encode_body_def reply_def Let_def lit_def
      utf8_char_def)

lemma token_doc_fields:
  "subscript (token_doc x) (lit ''result'') = Inr (JDict [(lit ''token'', JStr (lit ''T'')), (lit ''expiration'', x)])"
  "subscript (JDict [(lit ''token'', JStr (lit ''T'')), (lit ''expiration'', x)]) (lit ''token'') = Inr (JStr (lit ''T''))"
  "subscript (JDict [(lit ''token'', JStr (lit ''T'')), (lit ''expiration'', x)]) (lit ''expiration'') = Inr x"
  by (simp_all add: token_doc_def subscript_def lit_def)

lemma token_fields_doc: "token_fields L (token_doc x) = (case py_int L x of Inl e \<Rightarrow> Inl e | Inr n \<Rightarrow> Inr (JStr (lit ''T''), n))"
  by (simp add: token_fields_def token_doc_fields)

lemma floor_three_halves: "\<lfloor>3 / 2 :: rat\<rfloor> = 1"
  by (rule floor_unique) simp_all

text \<open>
  Claim C5, as stated, fails: the response
  \<^verbatim>\<open>{"result": {"token": "T", "expiration": 1.5}}\<close> is accepted and the
  fractional expiration is cut to the integer 1.
\<close>

theorem fractional_expiration_counterexample:
  "snd (obtain_token no_lib (reply (token_doc (JFloat (Finite (3 / 2))))) (lit ''k'') (lit ''t'')) =
     Inr (JStr (lit ''T''), 1)"
  by (rule obtain_token_ok [OF token_exchange_reply])
     (simp add: token_fields_doc py_int_def floor_three_halves)

lemma py_int_rejected:
  "x = JNull \<or> x = JList xs \<or> x = JDict kvs \<or> x = JFloat NaN \<or>
   (x = JStr s \<and> py_int_str L s = None) \<Longrightarrow> \<exists>e. py_int L x = Inl e \<and> caught e"
  by (auto simp: py_int_def caught_def)

text \<open>
  Claim C5, amended. For a token response whose \<open>expiration\<close> is present:
  \<open>obtain_token\<close> fails with the \<open>RuntimeError\<close> "Unexpected token response structure"
  when it is \<open>null\<close>, a list, an object, NaN, or a string that \<open>int()\<close> rejects; a finite
  fractional number is cut towards zero, a boolean becomes 0 or 1 and a string that
  \<open>int()\<close> accepts is parsed, and the integer is returned as the expiration.
\<close>

theorem expiration_coercion:
  assumes "snd (token_exchange srv k t) = Inr response"
    and "subscript response (lit ''result'') = Inr res"
    and "subscript res (lit ''token'') = Inr tok"
    and "subscript res (lit ''expiration'') = Inr x"
  shows "(x = JNull \<or> x = JList xs \<or> x = JDict kvs \<or> x = JFloat NaN \<or>
          (x = JStr s \<and> py_int_str L s = None)
          \<longrightarrow> snd (obtain_token L srv k t) =
                Inl (RuntimeError (lit ''Unexpected token response structure: '' @
                                   py_str (py_repr L) response))) \<and>
         (x = JFloat (Finite q)
          \<longrightarrow> snd (obtain_token L srv k t) = Inr (tok, if q < 0 then - \<lfloor>- q\<rfloor> else \<lfloor>q\<rfloor>)) \<and>
         (x = JBool b \<longrightarrow> snd (obtain_token L srv k t) = Inr (tok, if b then 1 else 0)) \<and>
         (x = JStr s \<and> py_int_str L s = Some n \<longrightarrow> snd (obtain_token L srv k t) = Inr (tok, n))"
proof -
  have tf: "token_fields L response = (case py_int L x of Inl e \<Rightarrow> Inl e | Inr n \<Rightarrow> Inr (tok, n))"
    using assms(2-4) by (simp add: token_fields_def)
  show ?thesis
  proof (intro conjI impI)
    assume "x = JNull \<or> x = JList xs \<or> x = JDict kvs \<or> x = JFloat NaN \<or>
          (x = JStr s \<and> py_int_str L s = None)"
    then obtain e where "py_int L x = Inl e" "caught e"
      using py_int_rejected by blast
    then have "token_fields L response = Inl e" by (simp add: tf)
    with assms(1) show "snd (obtain_token L srv k t) =
                Inl (RuntimeError (lit ''Unexpected token response structure: '' @
                                   py_str (py_repr L) response))"
      using \<open>caught e\<close> by (rule obtain_token_caught)
  next
    assume "x = JFloat (Finite q)"
    then have "token_fields L response = Inr (tok, if q < 0 then - \<lfloor>- q\<rfloor> else \<lfloor>q\<rfloor>)"
      by (simp add: tf py_int_def)
    with assms(1) show "snd (obtain_token L srv k t) = Inr (tok, if q < 0 then - \<lfloor>- q\<rfloor> else \<lfloor>q\<rfloor>)"
      by (rule obtain_token_ok)
  next
    assume "x = JBool b"
    then have "token_fields L response = Inr (tok, if b then 1 else 0)"
      by (simp add: tf py_int_def)
    with assms(1) show "snd (obtain_token L srv k t) = Inr (tok, if b then 1 else 0)"
      by (rule obtain_token_ok)
  next
    assume "x = JStr s \<and> py_int_str L s = Some n"
    then have "token_fields L response = Inr (tok, n)"
      by (simp add: tf py_int_def)
    with assms(1) show "snd (obtain_token L srv k t) = Inr (tok, n)"
      by (rule obtain_token_ok)
  qed
qed

theorem expiration_coercion_witness:
  "snd (token_exchange (reply (token_doc JNull)) (lit ''k'') (lit ''t'')) = Inr (token_doc JNull) \<and>
   subscript (token_doc JNull) (lit ''result'') =
     Inr (JDict [(lit ''token'', JStr (lit ''T'')), (lit ''expiration'', JNull)]) \<and>
   snd (obtain_token no_lib (reply (token_doc JNull)) (lit ''k'') (lit ''t'')) =
     Inl (RuntimeError (lit ''Unexpected token response structure: '' @
                        py_str (py_repr no_lib) (token_doc JNull)))"
  using expiration_coercion [where srv = "reply (token_doc JNull)" and k = "lit ''k''"
      and t = "lit ''t''" and response = "token_doc JNull"
      and res = "JDict [(lit ''token'', JStr (lit ''T'')), (lit ''expiration'', JNull)]"
      and tok = "JStr (lit ''T'')" and x = JNull and L = no_lib]
  by (simp add: token_exchange_reply token_doc_fields)

theorem token_response_shape_witness:
  "snd (token_exchange (reply (token_doc (JInt 1700000000000))) (lit ''k'') (lit ''t'')) =
     Inr (token_doc (JInt 1700000000000)) \<and>
   snd (obtain_token no_lib (reply (token_doc (JInt 1700000000000))) (lit ''k'') (lit ''t'')) =
     Inr (JStr (lit ''T''), 1700000000000) \<and>
   isl (subscript (JDict []) (lit ''result'')) \<and>
   snd (obtain_token no_lib (reply (JDict [])) (lit ''k'') (lit ''t'')) =
     Inl (RuntimeError (lit ''Unexpected token response structure: '' @
                        py_str (py_repr no_lib) (JDict [])))"
  using token_response_shape [where srv = "reply (token_doc (JInt 1700000000000))"
      and k = "lit ''k''" and t = "lit ''t''" and response = "token_doc (JInt 1700000000000)"
      and res = "JDict [(lit ''token'', JStr (lit ''T'')),
                        (lit ''expiration'', JInt 1700000000000)]"
      and T = "lit ''T''" and E = 1700000000000 and L = no_lib]
    token_response_shape [where srv = "reply (JDict [])" and k = "lit ''k''" and t = "lit ''t''"
      and response = "JDict []" and L = no_lib]
  by (simp add: token_exchange_reply token_doc_fields) (simp add: subscript_def)

section \<open>Properties of the HTTP client\<close>

lemma utf8_decode_ignore_ascii: "\<forall>b \<in> set raw. b < 128 \<Longrightarrow> utf8_decode_ignore raw = raw"
  by (induction raw) simp_all

lemma request_json_http_error:
  assumes "encode_body data = Some body"
    and "srv (build_request url method hdrs body timeout) = HTTPError code raw"
  shows "request_json srv url method hdrs data timeout =
     ([Requested (build_request url method hdrs body timeout)],
      Inl (RuntimeError (lit ''HTTP '' @ str_int code @ lit '' for '' @ url @ lit '': '' @
                         utf8_decode_ignore raw)))"
  using assms by (simp add: request_json_def Let_def)

text \<open>
  Claim C6. When the server answers with an error status (\<open>urlopen\<close> raises
  \<open>HTTPError\<close> for every status of 400 and above), \<open>request_json\<close> fails with a
  \<open>RuntimeError\<close> (the spec's \<open>HttpStatusError\<close>) whose message holds the status code
  in decimal and, at its end, the response body decoded as UTF-8 with undecodable bytes
  dropped; an ASCII body is there byte for byte.
\<close>

theorem http_error_carries_status_and_body:
  assumes "encode_body data = Some body"
    and "srv (build_request url method hdrs body timeout) = HTTPError code raw"
    and "400 \<le> code"
  shows "snd (request_json srv url method hdrs data timeout) =
           Inl (RuntimeError (lit ''HTTP '' @ str_int code @ lit '' for '' @ url @ lit '': '' @
                              utf8_decode_ignore raw)) \<and>
         ((\<forall>b \<in> set raw. b < 128) \<longrightarrow> utf8_decode_ignore raw = raw)"
  using assms(1,2) utf8_decode_ignore_ascii by (simp add: request_json_def Let_def)

theorem http_error_carries_status_and_body_witness:
  "encode_body None = Some None \<and>
   (\<lambda>req. HTTPError 404 (lit ''{\"error\":\"no such tenant\"}''))
     (build_request (lit ''https://h/x'') (lit ''GET'') [] None 30) =
     HTTPError 404 (lit ''{\"error\":\"no such tenant\"}'') \<and> (400::int) \<le> 404 \<and>
   snd (request_json (\<lambda>req. HTTPError 404 (lit ''{\"error\":\"no such tenant\"}''))
          (lit ''https://h/x'') (lit ''GET'') [] None 30) =
     Inl (RuntimeError (lit ''HTTP 404 for https://h/x: {\"error\":\"no such tenant\"}''))"
  using http_error_carries_status_and_body [of None None
      "\<lambda>req. HTTPError 404 (lit ''{\"error\":\"no such tenant\"}'')" "lit ''https://h/x''"
      "lit ''GET''" "[]" 30 404 "lit ''{\"error\":\"no such tenant\"}''"]
  by (simp add: encode_body_def lit_def str_int_def digits.simps)

section \<open>Properties of the listing request\<close>

lemma hex_value_digit: "n < 16 \<Longrightarrow> hex_value (hex_digit n) = n"
  by (simp add: hex_value_def hex_digit_def)

lemma unquote_quote_byte:
  assumes "b < 256"
  shows "unquote_plus (quote_byte b @ rest) = b # unquote_plus rest"
proof (cases "unreserved b")
  case True
  then have "b \<noteq> 37" "b \<noteq> 43" by (auto simp: unreserved_def)
  with True show ?thesis by (simp add: quote_byte_def)
next
  case False
  show ?thesis
  proof (cases "b = 32")
    case True
    with False show ?thesis by (simp add: quote_byte_def)
  next
    case n32: False
    from assms have "b div 16 < 16" "b mod 16 < 16" by simp_all
    then have "hex_value (hex_digit (b div 16)) * 16 + hex_value (hex_digit (b mod 16)) = b"
      by (simp add: hex_value_digit)
    with False n32 show ?thesis by (simp add: quote_byte_def)
  qed
qed

lemma unquote_quote: "\<forall>b \<in> set bs. b < 256 \<Longrightarrow> unquote_plus (concat (map quote_byte bs)) = bs"
  by (induction bs) (simp_all add: unquote_quote_byte)

lemma quote_unreserved: "\<forall>b \<in> set bs. unreserved b \<Longrightarrow> concat (map quote_byte bs) = bs"
  by (induction bs) (simp_all add: quote_byte_def)

lemma utf8_encode_ascii: "\<forall>c \<in> set s. c < 128 \<Longrightarrow> utf8_encode s = Some s"
  by (induction s) (simp_all add: utf8_char_def)

lemma unreserved_ascii: "unreserved c \<Longrightarrow> c < 128"
  by (auto simp: unreserved_def)

lemma utf8_char_bytes: "utf8_char c = Some bs \<Longrightarrow> c < 1114112 \<Longrightarrow> \<forall>b \<in> set bs. b < 256"
  by (auto simp: utf8_char_def split: if_splits)

lemma utf8_encode_bytes:
  "utf8_encode s = Some bs \<Longrightarrow> \<forall>c \<in> set s. c < 1114112 \<Longrightarrow> \<forall>b \<in> set bs. b < 256"
proof (induction s arbitrary: bs)
  case Nil
  then show ?case by simp
next
  case (Cons c cs)
  then obtain b1 b2 where b: "utf8_char c = Some b1" "utf8_encode cs = Some b2" "bs = b1 @ b2"
    by (auto split: option.splits)
  from Cons.prems(2) have "c < 1114112" "\<forall>c \<in> set cs. c < 1114112" by simp_all
  with b Cons.IH [of b2] utf8_char_bytes [of c b1] show ?case by auto
qed

lemma quote_storage_type: "quote_plus (lit ''storage-type'') = Inr (lit ''storage-type'')"
  by (simp add: quote_plus_def lit_def utf8_char_def quote_byte_def unreserved_def)

lemma url_with_type:
  assumes "s \<noteq> []" and "utf8_encode s = Some bs"
  shows "storage_systems_url t (Some s) =
           Inr (API_BASE @ STORAGE_SYSTEMS_PATH t @ lit ''?storage-type='' @ concat (map quote_byte bs))"
proof -
  have "quote_plus s = Inr (concat (map quote_byte bs))"
    using assms(2) by (simp add: quote_plus_def)
  then have "urlencode1 (lit ''storage-type'') s =
      Inr (lit ''storage-type'' @ lit ''='' @ concat (map quote_byte bs))"
    by (simp add: urlencode1_def quote_storage_type)
  with assms(1) show ?thesis
    by (simp add: storage_systems_url_def lit_def)
qed

lemma url_without_type:
  "storage_systems_url t None = Inr (API_BASE @ STORAGE_SYSTEMS_PATH t)"
  "storage_systems_url t (Some []) = Inr (API_BASE @ STORAGE_SYSTEMS_PATH t)"
  by (simp_all add: storage_systems_url_def)

lemma fetch_request:
  "storage_systems_url t st = Inr url \<Longrightarrow>
   fst (fetch_storage_systems srv t tok st) =
     [Requested (build_request url (lit ''GET'') [(lit ''x-api-token'', tok)] None 30)]"
  by (simp add: fetch_storage_systems_def request_json_def encode_body_def Let_def)

lemma surrogate_url:
  "s \<noteq> [] \<Longrightarrow> utf8_encode s = None \<Longrightarrow> storage_systems_url t (Some s) = Inl UnicodeEncodeError"
proof -
  assume a: "s \<noteq> []" "utf8_encode s = None"
  then have "quote_plus s = Inl UnicodeEncodeError" by (simp add: quote_plus_def)
  then have "urlencode1 (lit ''storage-type'') s = Inl UnicodeEncodeError"
    by (simp add: urlencode1_def quote_storage_type)
  with a(1) show ?thesis by (simp add: storage_systems_url_def)
qed

lemma surrogate_fetch:
  "s \<noteq> [] \<Longrightarrow> utf8_encode s = None \<Longrightarrow>
   fetch_storage_systems srv t tok (Some s) = ([], Inl UnicodeEncodeError)"
  by (simp add: fetch_storage_systems_def surrogate_url)

text \<open>
  Claim C8, as stated, fails for a string that UTF-8 cannot encode: for the lone
  surrogate U+DCFF, which the command line delivers for an undecodable byte,
  \<open>urlencode\<close> raises \<open>UnicodeEncodeError\<close>, no URL is built and no request is made.
\<close>

theorem lone_surrogate_counterexample:
  "storage_systems_url (lit ''t1'') (Some [56575]) = Inl UnicodeEncodeError \<and>
   fetch_storage_systems (reply JNull) (lit ''t1'') (JStr (lit ''T'')) (Some [56575]) =
     ([], Inl UnicodeEncodeError)"
proof -
  have "utf8_encode [56575] = None" by (simp add: utf8_char_def)
  then show ?thesis by (simp add: surrogate_url surrogate_fetch)
qed

text \<open>
  Claim C8, amended. For a non-empty \<open>storage_type\<close> \<open>s\<close> that UTF-8 can encode, the
  listing URL ends in \<open>?storage-type=\<close> followed by the URL-encoded value, which
  decodes to exactly the bytes of \<open>s\<close>, and this is the URL of the request made; no
  value is rejected or replaced for what it says. A value made of unreserved characters
  appears in the URL letter for letter. A non-empty \<open>s\<close> that UTF-8 cannot encode ends
  the fetch with \<open>UnicodeEncodeError\<close> before any request. For an absent or empty
  \<open>storage_type\<close> the URL has no query.
\<close>

theorem storage_type_forwarded:
  "(s \<noteq> [] \<and> utf8_encode s = Some bs \<and> (\<forall>c \<in> set s. c < 1114112) \<longrightarrow>
      storage_systems_url t (Some s) =
        Inr (API_BASE @ STORAGE_SYSTEMS_PATH t @ lit ''?storage-type='' @
             concat (map quote_byte bs)) \<and>
      unquote_plus (concat (map quote_byte bs)) = bs \<and>
      fst (fetch_storage_systems srv t tok (Some s)) =
        [Requested (build_request
           (API_BASE @ STORAGE_SYSTEMS_PATH t @ lit ''?storage-type='' @
            concat (map quote_byte bs))
           (lit ''GET'') [(lit ''x-api-token'', tok)] None 30)]) \<and>
   (s \<noteq> [] \<and> (\<forall>c \<in> set s. unreserved c) \<longrightarrow>
      storage_systems_url t (Some s) =
        Inr (API_BASE @ STORAGE_SYSTEMS_PATH t @ lit ''?storage-type='' @ s)) \<and>
   (s \<noteq> [] \<and> utf8_encode s = None \<longrightarrow>
      fetch_storage_systems srv t tok (Some s) = ([], Inl UnicodeEncodeError)) \<and>
   storage_systems_url t None = Inr (API_BASE @ STORAGE_SYSTEMS_PATH t) \<and>
   storage_systems_url t (Some []) = Inr (API_BASE @ STORAGE_SYSTEMS_PATH t)"
proof (intro conjI impI)
  assume a: "s \<noteq> [] \<and> utf8_encode s = Some bs \<and> (\<forall>c \<in> set s. c < 1114112)"
  then show u: "storage_systems_url t (Some s) =
        Inr (API_BASE @ STORAGE_SYSTEMS_PATH t @ lit ''?storage-type='' @
             concat (map quote_byte bs))"
    by (simp add: url_with_type)
  from a have "\<forall>b \<in> set bs. b < 256" using utf8_encode_bytes by blast
  then show "unquote_plus (concat (map quote_byte bs)) = bs" by (rule unquote_quote)
  from u show "fst (fetch_storage_systems srv t tok (Some s)) =
        [Requested (build_request
           (API_BASE @ STORAGE_SYSTEMS_PATH t @ lit ''?storage-type='' @
            concat (map quote_byte bs))
           (lit ''GET'') [(lit ''x-api-token'', tok)] None 30)]"
    by (rule fetch_request)
next
  assume a: "s \<noteq> [] \<and> (\<forall>c \<in> set s. unreserved c)"
  then have "\<forall>c \<in> set s. c < 128" using unreserved_ascii by blast
  then have "utf8_encode s = Some s" by (rule utf8_encode_ascii)
  moreover from a have "concat (map quote_byte s) = s" by (simp add: quote_unreserved)
  ultimately show "storage_systems_url t (Some s) =
        Inr (API_BASE @ STORAGE_SYSTEMS_PATH t @ lit ''?storage-type='' @ s)"
    using a url_with_type [of s s t] by simp
next
  assume "s \<noteq> [] \<and> utf8_encode s = None"
  then show "fetch_storage_systems srv t tok (Some s) = ([], Inl UnicodeEncodeError)"
    by (simp add: surrogate_fetch)
qed (simp_all add: url_without_type)

theorem storage_type_forwarded_witness:
  "lit ''block'' \<noteq> [] \<and> utf8_encode (lit ''block'') = Some (lit ''block'') \<and>
   list_all (\<lambda>c. c < 1114112) (lit ''block'') \<and> list_all unreserved (lit ''block'') \<and>
   storage_systems_url (lit ''t1'') (Some (lit ''block'')) =
     Inr (lit ''https://dev.insights.ibm.com/restapi/v1/tenants/t1/storage-systems?storage-type=block'') \<and>
   [56575] \<noteq> [] \<and> utf8_encode [56575] = None \<and>
   fetch_storage_systems (reply JNull) (lit ''t1'') JNull (Some [56575]) =
     ([], Inl UnicodeEncodeError)"
  using storage_type_forwarded [where s = "lit ''block''" and bs = "lit ''block''"
      and t = "lit ''t1''" and srv = "reply JNull" and tok = JNull]
    storage_type_forwarded [where s = "[56575]" and bs = "[]"
      and t = "lit ''t1''" and srv = "reply JNull" and tok = JNull]
  by (simp add: lit_def utf8_char_def unreserved_def quote_byte_def API_BASE_def
      STORAGE_SYSTEMS_PATH_def)

section \<open>Properties of the credentials\<close>

lemma entry_values_Cons:
  "entry_values key (l # ls) =
     (case cred_entry l of
        None \<Rightarrow> entry_values key ls
      | Some (k, v) \<Rightarrow> if k = key then v # entry_values key ls else entry_values key ls)"
  by (simp add: entry_values_def List.map_filter_simps split: option.splits prod.splits)

lemma stored_Cons:
  "stored key (l # ls) =
     (case stored key ls of
        Some v \<Rightarrow> Some v
      | None \<Rightarrow> (case cred_entry l of
                  None \<Rightarrow> None
                | Some (k, v) \<Rightarrow> if k = key then Some v else None))"
  by (simp add: stored_def entry_values_Cons split: option.splits prod.splits list.splits)



lemma stored_Nil: "stored key [] = None"
  by (simp add: stored_def entry_values_def List.map_filter_simps)

lemma creds_step_eq:
  "creds_step (a, t) l =
     (case cred_entry l of
        None \<Rightarrow> (a, t)
      | Some (k, v) \<Rightarrow>
          if k = lit ''apikey'' then (Some v, t)
          else if k = lit ''tenantid'' then (a, Some v) else (a, t))"
  by (simp add: creds_step_def)

lemma foldl_creds_step:
  "foldl creds_step (a, t) lines =
     (case stored (lit ''apikey'') lines of None \<Rightarrow> a | Some v \<Rightarrow> Some v,
      case stored (lit ''tenantid'') lines of None \<Rightarrow> t | Some v \<Rightarrow> Some v)"
proof (induction lines arbitrary: a t)
  case Nil
  show ?case by (simp add: stored_Nil)
next
  case (Cons l ls)
  have ne: "lit ''apikey'' \<noteq> lit ''tenantid''" by (simp add: lit_def)
  show ?case
  proof (cases "cred_entry l")
    case None
    then have "foldl creds_step (a, t) (l # ls) = foldl creds_step (a, t) ls"
      by (simp add: creds_step_eq)
    with None show ?thesis
      by (simp add: Cons stored_Cons split: option.splits)
  next
    case (Some kv)
    obtain k v where kv: "kv = (k, v)" by (cases kv)
    consider "k = lit ''apikey''" | "k = lit ''tenantid''"
      | "k \<noteq> lit ''apikey''" "k \<noteq> lit ''tenantid''" by blast
    then show ?thesis
    proof cases
      case 1
      then have "foldl creds_step (a, t) (l # ls) = foldl creds_step (Some v, t) ls"
        using Some kv by (simp add: creds_step_eq)
      with 1 Some kv ne show ?thesis
        by (simp add: Cons stored_Cons split: option.splits)
    next
      case 2
      then have "foldl creds_step (a, t) (l # ls) = foldl creds_step (a, Some v) ls"
        using Some kv ne by (simp add: creds_step_eq)
      with 2 Some kv ne show ?thesis
        by (simp add: Cons stored_Cons split: option.splits)
    next
      case 3
      then have "foldl creds_step (a, t) (l # ls) = foldl creds_step (a, t) ls"
        using Some kv by (simp add: creds_step_eq)
      with 3 Some kv show ?thesis
        by (simp add: Cons stored_Cons split: option.splits)
    qed
  qed
qed

lemma stored_absent:
  "\<forall>l \<in> set lines. map_option fst (cred_entry l) \<noteq> Some key \<Longrightarrow> stored key lines = None"
  by (induction lines) (auto simp: stored_Cons stored_Nil split: option.splits)

lemma read_creds_stored:
  "read_creds path (Some text) =
     (case (stored (lit ''apikey'') (splitlines text), stored (lit ''tenantid'') (splitlines text)) of
        (Some a, Some t) \<Rightarrow> if a = [] \<or> t = [] then Inl creds_missing else Inr (a, t)
      | _ \<Rightarrow> Inl creds_missing)"
  by (simp add: read_creds_def foldl_creds_step split: option.splits)

lemma read_creds_no_apikey:
  "stored (lit ''apikey'') (splitlines text) = None \<Longrightarrow> read_creds path (Some text) = Inl creds_missing"
  by (simp add: read_creds_stored)

lemma read_creds_no_tenantid:
  "stored (lit ''tenantid'') (splitlines text) = None \<Longrightarrow> read_creds path (Some text) = Inl creds_missing"
  by (cases "stored (lit ''apikey'') (splitlines text)") (simp_all add: read_creds_stored)

lemma read_creds_empty_apikey:
  "stored (lit ''apikey'') (splitlines text) = Some [] \<Longrightarrow> read_creds path (Some text) = Inl creds_missing"
  by (cases "stored (lit ''tenantid'') (splitlines text)") (simp_all add: read_creds_stored)

lemma read_creds_empty_tenantid:
  "stored (lit ''tenantid'') (splitlines text) = Some [] \<Longrightarrow> read_creds path (Some text) = Inl creds_missing"
  by (cases "stored (lit ''apikey'') (splitlines text)") (simp_all add: read_creds_stored)

lemma read_creds_both:
  "stored (lit ''apikey'') (splitlines text) = Some a \<Longrightarrow> a \<noteq> [] \<Longrightarrow>
   stored (lit ''tenantid'') (splitlines text) = Some t \<Longrightarrow> t \<noteq> [] \<Longrightarrow>
   read_creds path (Some text) = Inr (a, t)"
  by (simp add: read_creds_stored)

text \<open>
  Claim C4. When no line of the credentials file gives \<open>apikey\<close>, or none gives
  \<open>tenantid\<close>, or the value the file stores for either is empty, \<open>read_creds\<close> fails
  with the \<open>ValueError\<close> "Both 'apikey' and 'tenantid' must be present in creds file"
  (the spec's \<open>ConfigurationError\<close>). When the file stores a non-empty value for both,
  \<open>read_creds\<close> returns exactly the pair of the stored values.
\<close>

theorem creds_resolution:
  "((\<forall>l \<in> set (splitlines text). map_option fst (cred_entry l) \<noteq> Some (lit ''apikey'')) \<or>
    (\<forall>l \<in> set (splitlines text). map_option fst (cred_entry l) \<noteq> Some (lit ''tenantid'')) \<or>
    stored (lit ''apikey'') (splitlines text) = Some [] \<or>
    stored (lit ''tenantid'') (splitlines text) = Some []
    \<longrightarrow> read_creds path (Some text) = Inl creds_missing) \<and>
   (stored (lit ''apikey'') (splitlines text) = Some a \<and> a \<noteq> [] \<and>
    stored (lit ''tenantid'') (splitlines text) = Some t \<and> t \<noteq> []
    \<longrightarrow> read_creds path (Some text) = Inr (a, t))"
proof (intro conjI impI)
  assume "(\<forall>l \<in> set (splitlines text). map_option fst (cred_entry l) \<noteq> Some (lit ''apikey'')) \<or>
    (\<forall>l \<in> set (splitlines text). map_option fst (cred_entry l) \<noteq> Some (lit ''tenantid'')) \<or>
    stored (lit ''apikey'') (splitlines text) = Some [] \<or>
    stored (lit ''tenantid'') (splitlines text) = Some []"
  then show "read_creds path (Some text) = Inl creds_missing"
  proof (elim disjE)
    assume "\<forall>l \<in> set (splitlines text). map_option fst (cred_entry l) \<noteq> Some (lit ''apikey'')"
    then have "stored (lit ''apikey'') (splitlines text) = None" by (rule stored_absent)
    then show ?thesis by (rule read_creds_no_apikey)
  next
    assume "\<forall>l \<in> set (splitlines text). map_option fst (cred_entry l) \<noteq> Some (lit ''tenantid'')"
    then have "stored (lit ''tenantid'') (splitlines text) = None" by (rule stored_absent)
    then show ?thesis by (rule read_creds_no_tenantid)
  next
    assume "stored (lit ''apikey'') (splitlines text) = Some []"
    then show ?thesis by (rule read_creds_empty_apikey)
  next
    assume "stored (lit ''tenantid'') (splitlines text) = Some []"
    then show ?thesis by (rule read_creds_empty_tenantid)
  qed
next
  assume "stored (lit ''apikey'') (splitlines text) = Some a \<and> a \<noteq> [] \<and>
    stored (lit ''tenantid'') (splitlines text) = Some t \<and> t \<noteq> []"
  then show "read_creds path (Some text) = Inr (a, t)"
    using read_creds_both by blast
qed

lemma example_lines:
  "splitlines creds_example = [lit ''# c'', lit ''APIKey : k:1 '', lit ''tenantid:t1'']"
  by (simp add: creds_example_def splitlines_def linebreak_def lit_def)

lemma example_entries:
  "cred_entry (lit ''# c'') = None"
  "cred_entry (lit ''APIKey : k:1 '') = Some (lit ''apikey'', lit ''k:1'')"
  "cred_entry (lit ''tenantid:t1'') = Some (lit ''tenantid'', lit ''t1'')"
  by (simp_all add: cred_entry_def strip_def isspace_def lower_def lower_cp_def lit_def)

lemma example_stored:
  "stored (lit ''apikey'') (splitlines creds_example) = Some (lit ''k:1'')"
  "stored (lit ''tenantid'') (splitlines creds_example) = Some (lit ''t1'')"
  by (simp_all add: example_lines stored_Cons stored_Nil example_entries) (simp_all add: lit_def)

lemma example_missing:
  "splitlines (lit ''apikey: k'') = [lit ''apikey: k'']"
  "cred_entry (lit ''apikey: k'') = Some (lit ''apikey'', lit ''k'')"
  by (simp_all add: splitlines_def linebreak_def cred_entry_def strip_def isspace_def lower_def
      lower_cp_def lit_def)

theorem creds_resolution_witness:
  "stored (lit ''apikey'') (splitlines creds_example) = Some (lit ''k:1'') \<and> lit ''k:1'' \<noteq> [] \<and>
   stored (lit ''tenantid'') (splitlines creds_example) = Some (lit ''t1'') \<and> lit ''t1'' \<noteq> [] \<and>
   read_creds (lit ''creds'') (Some creds_example) = Inr (lit ''k:1'', lit ''t1'') \<and>
   list_all (\<lambda>l. map_option fst (cred_entry l) \<noteq> Some (lit ''tenantid''))
     (splitlines (lit ''apikey: k'')) \<and>
   read_creds (lit ''creds'') (Some (lit ''apikey: k'')) = Inl creds_missing"
proof -
  have a: "list_all (\<lambda>l. map_option fst (cred_entry l) \<noteq> Some (lit ''tenantid''))
     (splitlines (lit ''apikey: k''))"
    by (simp add: example_missing) (simp add: lit_def)
  then have b: "\<forall>l \<in> set (splitlines (lit ''apikey: k'')).
      map_option fst (cred_entry l) \<noteq> Some (lit ''tenantid'')"
    by (simp add: list_all_iff)
  have c: "lit ''k:1'' \<noteq> []" "lit ''t1'' \<noteq> []" by (simp_all add: lit_def)
  show ?thesis
    using creds_resolution [of creds_example "lit ''creds''" "lit ''k:1''" "lit ''t1''"]
      creds_resolution [of "lit ''apikey: k''" "lit ''creds''" "[]" "[]"] a b c example_stored
    by simp
qed

section \<open>Properties of the orchestrator\<close>

lemma then_io_fail: "snd m = Inl e \<Longrightarrow> then_io m f = (fst m, Inl e)"
  by (cases m) (simp add: then_io_def)

lemma then_io_ok: "snd m = Inr x \<Longrightarrow> then_io m f = (fst m @ fst (f x), snd (f x))"
  by (cases m) (simp add: then_io_def split: prod.splits)

lemma then_io_pure: "then_io ([], Inr x) f = f x"
  by (cases "f x") (simp add: then_io_def)

lemma requests_of_append: "requests_of (xs @ ys) = requests_of xs @ requests_of ys"
  by (induction xs rule: requests_of.induct) simp_all

lemma info_facts:
  "snd (info a text) = Inr ()" "requests_of (fst (info a text)) = []"
  "list_all (\<lambda>ev. \<not> is_output ev) (fst (info a text))"
  by (simp_all add: info_def)

lemma write_token_no_output: "list_all (\<lambda>ev. \<not> is_output ev) (fst (write_token a token))"
  by (simp add: write_token_def then_io_def info_def split: option.splits json.splits)

lemma request_json_no_output:
  "list_all (\<lambda>ev. \<not> is_output ev) (fst (request_json n url method hdrs data timeout))"
  by (simp add: request_json_def Let_def split: option.splits)

lemma fetch_no_output:
  "list_all (\<lambda>ev. \<not> is_output ev) (fst (fetch_storage_systems n t tok st))"
  by (simp add: fetch_storage_systems_def request_json_no_output split: sum.splits)

lemma fst_obtain_token: "fst (obtain_token L n k t) = fst (token_exchange n k t)"
  by (cases "token_exchange n k t") (simp add: obtain_token_def split: sum.splits)

lemma obtain_token_no_output: "list_all (\<lambda>ev. \<not> is_output ev) (fst (obtain_token L n k t))"
  by (simp add: fst_obtain_token token_exchange_def request_json_no_output)

lemma main_with_creds:
  assumes "read_creds (creds a) (creds_file w) = Inr (k, t)"
  shows "main L w a =
     then_io (info a (lit ''Using tenant: '' @ t))
       (\<lambda>_. then_io (obtain_token L (net w) k t)
          (\<lambda>(token, expiration_ms).
             then_io (after_token L w a t token expiration_ms) (\<lambda>_. ([], Inr 0))))"
  using assms by (simp add: main_def then_io_pure)

lemma main_token_failed:
  assumes "read_creds (creds a) (creds_file w) = Inr (k, t)"
    and "snd (obtain_token L (net w) k t) = Inl e"
  shows "main L w a =
     (fst (info a (lit ''Using tenant: '' @ t)) @ fst (obtain_token L (net w) k t), Inl e)"
  by (simp add: main_with_creds [OF assms(1)] then_io_ok [OF info_facts(1)]
      then_io_fail [OF assms(2)])

lemma after_token_fetch_failed:
  assumes "snd (fetch_storage_systems (net w) t tok
                  (if storage_type a = [] then None else Some (storage_type a))) = Inl e"
  shows "list_all (\<lambda>ev. \<not> is_output ev) (fst (after_token L w a t tok ex)) \<and>
         isl (snd (after_token L w a t tok ex))"
proof (cases "snd (write_token a tok)")
  case (Inl e')
  then show ?thesis
    by (simp add: after_token_def then_io_fail write_token_no_output)
next
  case (Inr u)
  then show ?thesis
    by (simp add: after_token_def then_io_ok [OF Inr] then_io_ok [OF info_facts(1)]
        then_io_fail [OF assms] write_token_no_output info_facts(3) fetch_no_output)
qed

lemma main_fetch_failed:
  assumes "read_creds (creds a) (creds_file w) = Inr (k, t)"
    and "snd (obtain_token L (net w) k t) = Inr (tok, ex)"
    and "snd (fetch_storage_systems (net w) t tok
                (if storage_type a = [] then None else Some (storage_type a))) = Inl e"
  shows "list_all (\<lambda>ev. \<not> is_output ev) (fst (main L w a)) \<and> isl (snd (main L w a))"
proof -
  have m: "main L w a =
      (fst (info a (lit ''Using tenant: '' @ t)) @ fst (obtain_token L (net w) k t) @
       fst (then_io (after_token L w a t tok ex) (\<lambda>_. ([], Inr (0::int)))),
       snd (then_io (after_token L w a t tok ex) (\<lambda>_. ([], Inr (0::int)))))"
    by (simp add: main_with_creds [OF assms(1)] then_io_ok [OF info_facts(1)]
        then_io_ok [OF assms(2)])
  from after_token_fetch_failed [OF assms(3), of L ex]
  obtain e' where e': "snd (after_token L w a t tok ex) = Inl e'"
    and q: "list_all (\<lambda>ev. \<not> is_output ev) (fst (after_token L w a t tok ex))"
    by (auto simp: isl_def)
  show ?thesis
    by (simp add: m then_io_fail [OF e'] q info_facts(3) obtain_token_no_output)
qed

text \<open>
  Claim C7. In a run whose credentials were read: if the token exchange fails, the run
  ends with that failure and the requests it made are those of the token exchange, so
  the listing is never fetched; if the listing fetch fails, the run ends with a failure
  and no event of it writes or prints the table or writes the JSON payload.
\<close>

theorem no_partial_success:
  assumes "read_creds (creds a) (creds_file w) = Inr (k, t)"
  shows "(snd (obtain_token L (net w) k t) = Inl e \<longrightarrow>
            snd (main L w a) = Inl e \<and>
            requests_of (fst (main L w a)) = requests_of (fst (token_exchange (net w) k t))) \<and>
         (snd (obtain_token L (net w) k t) = Inr (tok, ex) \<and>
          snd (fetch_storage_systems (net w) t tok
                 (if storage_type a = [] then None else Some (storage_type a))) = Inl e' \<longrightarrow>
            list_all (\<lambda>ev. \<not> is_output ev) (fst (main L w a)) \<and> isl (snd (main L w a)))"
proof (intro conjI impI)
  assume f: "snd (obtain_token L (net w) k t) = Inl e"
  show "snd (main L w a) = Inl e"
    by (simp add: main_token_failed [OF assms f])
  show "requests_of (fst (main L w a)) = requests_of (fst (token_exchange (net w) k t))"
    by (simp add: main_token_failed [OF assms f] requests_of_append info_facts(2)
        fst_obtain_token)
next
  assume "snd (obtain_token L (net w) k t) = Inr (tok, ex) \<and>
          snd (fetch_storage_systems (net w) t tok
                 (if storage_type a = [] then None else Some (storage_type a))) = Inl e'"
  then have "list_all (\<lambda>ev. \<not> is_output ev) (fst (main L w a)) \<and> isl (snd (main L w a))"
    using main_fetch_failed [OF assms] by blast
  then show "list_all (\<lambda>ev. \<not> is_output ev) (fst (main L w a))" "isl (snd (main L w a))"
    by simp_all
qed

lemma token_exchange_requests:
  "requests_of (fst (token_exchange n k t)) =
     [build_request (API_BASE @ TOKEN_PATH t) (lit ''POST'')
        [(lit ''x-api-key'', JStr k), (lit ''Content-Type'', JStr (lit ''application/json''))]
        (Some [123, 125]) 30]"
  by (simp add: token_exchange_def request_json_def encode_body_def Let_def lit_def utf8_char_def)

lemma read_creds_example:
  "read_creds p (Some creds_example) = Inr (lit ''k:1'', lit ''t1'')"
  by (rule read_creds_both) (simp_all add: example_stored, simp_all add: lit_def)

lemma unreachable_token:
  "snd (obtain_token L (net unreachable) k t) =
     Inl (RuntimeError (lit ''Failed to reach '' @ API_BASE @ TOKEN_PATH t @ lit '': '' @ lit ''down''))"
  by (simp add: obtain_token_def token_exchange_def request_json_def encode_body_def Let_def
      unreachable_def utf8_char_def lit_def)

lemma listing_down_token:
  "snd (obtain_token L (net listing_down) k t) = Inr (JStr (lit ''T''), 5)"
proof -
  have "snd (token_exchange (net listing_down) k t) = Inr (token_doc (JInt 5))"
    by (simp add: token_exchange_def request_json_def encode_body_def Let_def listing_down_def
        build_request_def utf8_char_def lit_def)
  moreover have "token_fields L (token_doc (JInt 5)) = Inr (JStr (lit ''T''), 5)"
    by (simp add: token_fields_doc py_int_def)
  ultimately show ?thesis by (rule obtain_token_ok)
qed

lemma listing_down_fetch:
  "snd (fetch_storage_systems (net listing_down) (lit ''t1'') tok (Some (lit ''block''))) =
     Inl (RuntimeError (lit ''HTTP 500 for https://dev.insights.ibm.com/restapi/v1/tenants/t1/storage-systems?storage-type=block: ''))"
proof -
  have u: "storage_systems_url (lit ''t1'') (Some (lit ''block'')) =
      Inr (lit ''https://dev.insights.ibm.com/restapi/v1/tenants/t1/storage-systems?storage-type=block'')"
    by (simp add: storage_systems_url_def urlencode1_def quote_storage_type)
       (simp add: quote_plus_def lit_def utf8_char_def unreserved_def quote_byte_def API_BASE_def
          STORAGE_SYSTEMS_PATH_def)
  have m: "lit ''GET'' \<noteq> lit ''POST''" by (simp add: lit_def)
  show ?thesis
    using m by (simp add: fetch_storage_systems_def u request_json_def encode_body_def Let_def
        listing_down_def build_request_def str_int_def digits.simps)
       (simp add: lit_def)
qed

theorem no_partial_success_witness:
  "read_creds (creds all_outputs) (creds_file unreachable) = Inr (lit ''k:1'', lit ''t1'') \<and>
   snd (obtain_token no_lib (net unreachable) (lit ''k:1'') (lit ''t1'')) =
     Inl (RuntimeError (lit ''Failed to reach '' @ API_BASE @ TOKEN_PATH (lit ''t1'') @ lit '': '' @
                        lit ''down'')) \<and>
   snd (main no_lib unreachable all_outputs) =
     Inl (RuntimeError (lit ''Failed to reach '' @ API_BASE @ TOKEN_PATH (lit ''t1'') @ lit '': '' @
                        lit ''down'')) \<and>
   requests_of (fst (main no_lib unreachable all_outputs)) =
     requests_of (fst (token_exchange (net unreachable) (lit ''k:1'') (lit ''t1''))) \<and>
   read_creds (creds all_outputs) (creds_file listing_down) = Inr (lit ''k:1'', lit ''t1'') \<and>
   snd (obtain_token no_lib (net listing_down) (lit ''k:1'') (lit ''t1'')) =
     Inr (JStr (lit ''T''), 5) \<and>
   isl (snd (fetch_storage_systems (net listing_down) (lit ''t1'') (JStr (lit ''T''))
               (Some (lit ''block'')))) \<and>
   list_all (\<lambda>ev. \<not> is_output ev) (fst (main no_lib listing_down all_outputs)) \<and>
   isl (snd (main no_lib listing_down all_outputs))"
proof -
  have c1: "read_creds (creds all_outputs) (creds_file unreachable) = Inr (lit ''k:1'', lit ''t1'')"
    by (simp add: unreachable_def read_creds_example)
  have c2: "read_creds (creds all_outputs) (creds_file listing_down) = Inr (lit ''k:1'', lit ''t1'')"
    by (simp add: listing_down_def read_creds_example)
  have st: "storage_type all_outputs = lit ''block''" "lit ''block'' \<noteq> []"
    by (simp_all add: all_outputs_def lit_def)
  show ?thesis
    using no_partial_success [OF c1, where L = no_lib
        and e = "RuntimeError (lit ''Failed to reach '' @ API_BASE @ TOKEN_PATH (lit ''t1'') @
                               lit '': '' @ lit ''down'')"]
      no_partial_success [OF c2, where L = no_lib and tok = "JStr (lit ''T'')" and ex = 5
        and e' = "RuntimeError (lit ''HTTP 500 for https://dev.insights.ibm.com/restapi/v1/tenants/t1/storage-systems?storage-type=block: '')"]
    by (simp add: c1 c2 st unreachable_token listing_down_token listing_down_fetch)
qed

end
